theory Spec2Isabelle
  imports Main "HOL-Library.AList"
begin

section \<open>Python values, dictionaries and errors\<close>

text \<open>
  The program of \<^verbatim>\<open>src/bda_manager.py\<close> handles JSON documents and pandas tables whose
  cells are arbitrary Python objects. \<open>NaN\<close> is the marker pandas stores for an absent
  cell, \<open>PNone\<close> is Python's \<open>None\<close>.
\<close>

datatype pyval =
    NaN
  | PNone
  | PBool bool
  | PInt int
  | PStr string
  | PList "pyval list"
  | PDict "(string \<times> pyval) list"

type_synonym dict = "(string \<times> pyval) list"

datatype error =
    KeyError string
  | ValueError string
  | TypeError string
  | ServiceError string
  | NoMoreStatus

text \<open>\<^verbatim>\<open>d.get(k)\<close>: the value stored under \<open>k\<close>, \<open>None\<close> when the key is missing.\<close>

definition dict_get :: "dict \<Rightarrow> string \<Rightarrow> pyval" where
  "dict_get d k = (case map_of d k of None \<Rightarrow> PNone | Some v \<Rightarrow> v)"

text \<open>Python truthiness, as used by \<^verbatim>\<open>if x:\<close> and \<^verbatim>\<open>if not x:\<close>.\<close>

fun truthy :: "pyval \<Rightarrow> bool" where
  "truthy NaN = True"
| "truthy PNone = False"
| "truthy (PBool b) = b"
| "truthy (PInt i) = (i \<noteq> 0)"
| "truthy (PStr s) = (s \<noteq> [])"
| "truthy (PList xs) = (xs \<noteq> [])"
| "truthy (PDict kvs) = (kvs \<noteq> [])"

section \<open>The status poller of \<open>main\<close> (lines 258-271)\<close>

text \<open>
  The runtime service is observed only through \<^verbatim>\<open>get_bda_inference_status\<close>. It is
  modelled by the script of replies it gives to successive status queries: a reply is
  the status payload or the error the client raises. Every query consumes one reply; a
  query against an exhausted script stands for a service that never answers again.
  The poller's effects are recorded as a trace of events.
\<close>

datatype event = Poll | Sleep nat

type_synonym reply = "error + dict"

record poller =
  script :: "reply list"
  trace :: "event list"

definition get_bda_inference_status :: "poller \<Rightarrow> reply \<times> poller" where
  "get_bda_inference_status p =
     (case script p of
        [] \<Rightarrow> (Inl NoMoreStatus, p)
      | r # rest \<Rightarrow> (r, p\<lparr>script := rest, trace := trace p @ [Poll]\<rparr>))"

text \<open>
  \<^verbatim>\<open>while response_bda_run_status.get('status') == "InProgress":
      time.sleep(10)
      response_bda_run_status = manager.get_bda_inference_status(...)\<close>
  The loop is recursion on the remaining script; an exception of the status query
  leaves the loop as an error.
\<close>

fun poll_loop :: "dict \<Rightarrow> reply list \<Rightarrow> event list \<Rightarrow> error + (dict \<times> poller)" where
  "poll_loop st [] tr =
     (if dict_get st ''status'' = PStr ''InProgress''
      then Inl NoMoreStatus
      else Inr (st, \<lparr>script = [], trace = tr\<rparr>))"
| "poll_loop st (r # rest) tr =
     (if dict_get st ''status'' = PStr ''InProgress''
      then (case r of
              Inl e \<Rightarrow> Inl e
            | Inr st' \<Rightarrow> poll_loop st' rest (tr @ [Sleep 10, Poll]))
      else Inr (st, \<lparr>script = r # rest, trace = tr\<rparr>))"

text \<open>The initial status retrieval followed by the loop.\<close>

definition await_completion :: "poller \<Rightarrow> error + (dict \<times> poller)" where
  "await_completion p =
     (case get_bda_inference_status p of
        (Inl e, p') \<Rightarrow> Inl e
      | (Inr st, p') \<Rightarrow> poll_loop st (script p') (trace p'))"

section \<open>The control-plane client: blueprints and projects\<close>

text \<open>
  The control-plane service is reached through \<^verbatim>\<open>self.bda_client\<close>. Its state is
  modelled by what the program can observe of it: the blueprint listing, the pages the
  project paginator yields (each page's \<^verbatim>\<open>"projects"\<close> entry, \<open>None\<close> when the key is
  missing), and the log of create requests received. The service accepts every create
  request: it registers the project under the resource name \<open>arn_of\<close> gives to the
  project's name and lists it from then on.
\<close>

type_synonym page = "dict list option"

record bda_client =
  blueprint_listing :: "dict list"
  project_pages :: "page list"
  arn_of :: "string \<Rightarrow> string"
  create_requests :: "dict list"

definition list_blueprints :: "bda_client \<Rightarrow> dict list" where
  "list_blueprints c = blueprint_listing c"

definition get_advertisement_arn :: "dict list \<Rightarrow> pyval" where
  "get_advertisement_arn blueprints =
     (case filter (\<lambda>bp. dict_get bp ''blueprintName'' = PStr ''Advertisement'') blueprints of
        [] \<Rightarrow> PNone
      | bp # _ \<Rightarrow> dict_get bp ''blueprintArn'')"

text \<open>The inner loop of \<^verbatim>\<open>_project_exists\<close> over the projects of one page.\<close>

fun find_project :: "dict list \<Rightarrow> string \<Rightarrow> dict option" where
  "find_project [] project_name = None"
| "find_project (project # rest) project_name =
     (if dict_get project ''projectName'' = PStr project_name then Some project
      else find_project rest project_name)"

text \<open>
  The outer loop over the pages. The function returns the matching project itself
  (\<^verbatim>\<open>return project\<close>), and \<^verbatim>\<open>False\<close> when no page lists the name.
\<close>

fun project_exists_pages :: "page list \<Rightarrow> string \<Rightarrow> pyval" where
  "project_exists_pages [] project_name = PBool False"
| "project_exists_pages (pg # pages) project_name =
     (case find_project (case pg of None \<Rightarrow> [] | Some ps \<Rightarrow> ps) project_name of
        Some project \<Rightarrow> PDict project
      | None \<Rightarrow> project_exists_pages pages project_name)"

definition project_exists :: "bda_client \<Rightarrow> string \<Rightarrow> pyval" where
  "project_exists c project_name = project_exists_pages (project_pages c) project_name"

definition enabled :: pyval where
  "enabled = PDict [(''state'', PStr ''ENABLED'')]"

definition enabled_types :: "string list \<Rightarrow> pyval" where
  "enabled_types ts = PDict [(''state'', PStr ''ENABLED''), (''types'', PList (map PStr ts))]"

definition standard_output_configuration :: pyval where
  "standard_output_configuration = PDict
     [(''document'', PDict
         [(''extraction'', PDict
             [(''granularity'', PDict [(''types'', PList [PStr ''PAGE'', PStr ''ELEMENT''])]),
              (''boundingBox'', enabled)]),
          (''generativeField'', enabled),
          (''outputFormat'', PDict
             [(''textFormat'', PDict [(''types'', PList [PStr ''MARKDOWN''])]),
              (''additionalFileFormat'', enabled)])]),
      (''image'', PDict
         [(''extraction'', PDict
             [(''category'', enabled_types [''TEXT_DETECTION'']), (''boundingBox'', enabled)]),
          (''generativeField'', enabled_types [''IMAGE_SUMMARY''])]),
      (''video'', PDict
         [(''extraction'', PDict
             [(''category'', enabled_types [''TRANSCRIPT'']), (''boundingBox'', enabled)]),
          (''generativeField'', enabled_types [''VIDEO_SUMMARY''])]),
      (''audio'', PDict
         [(''extraction'', PDict [(''category'', enabled_types [''TRANSCRIPT''])]),
          (''generativeField'', enabled_types [''AUDIO_SUMMARY''])])]"

text \<open>The service side of \<^verbatim>\<open>create_data_automation_project\<close>.\<close>

definition create_data_automation_project :: "bda_client \<Rightarrow> dict \<Rightarrow> pyval \<times> bda_client" where
  "create_data_automation_project c request =
     (let name = (case dict_get request ''projectName'' of PStr n \<Rightarrow> n | _ \<Rightarrow> []);
          arn = PStr (arn_of c name);
          stage = dict_get request ''projectStage'';
          summary = [(''projectArn'', arn), (''projectStage'', stage),
                     (''projectName'', PStr name)]
      in (PDict [(''projectArn'', arn), (''projectStage'', stage),
                 (''status'', PStr ''COMPLETED'')],
          c\<lparr>project_pages := project_pages c @ [Some [summary]],
            create_requests := create_requests c @ [request]\<rparr>))"

text \<open>
  \<^verbatim>\<open>create_bda_project\<close>: the first argument is \<^verbatim>\<open>self.advertisement_arn\<close>. The result is
  the value returned or the exception raised, with the state of the service afterwards.
\<close>

definition create_bda_project ::
  "pyval \<Rightarrow> bda_client \<Rightarrow> string \<Rightarrow> string \<Rightarrow> string \<Rightarrow> (error + pyval) \<times> bda_client" where
  "create_bda_project advertisement_arn c project_name project_description project_stage =
     (let project_exist = project_exists c project_name in
      if truthy project_exist then (Inr project_exist, c)
      else if \<not> truthy advertisement_arn
        then (Inl (ValueError ''Advertisement blueprint ARN not found.''), c)
      else
        (case create_data_automation_project c
                [(''projectName'', PStr project_name),
                 (''projectDescription'', PStr project_description),
                 (''projectStage'', PStr project_stage),
                 (''standardOutputConfiguration'', standard_output_configuration),
                 (''customOutputConfiguration'', PDict
                    [(''blueprints'', PList
                        [PDict [(''blueprintArn'', advertisement_arn),
                                (''blueprintStage'', PStr ''LIVE'')]])])] of
           (response_bda_creation, c') \<Rightarrow> (Inr response_bda_creation, c')))"

text \<open>
  The identity of what a provisioning call hands back: the resource name of the
  project, which both the create response and a listed project carry under
  \<^verbatim>\<open>"projectArn"\<close> and which \<open>main\<close> reads from the result; an exception is its own outcome.
\<close>

definition identity_of :: "error + pyval \<Rightarrow> error + pyval" where
  "identity_of r =
     (case r of
        Inl e \<Rightarrow> Inl e
      | Inr (PDict d) \<Rightarrow> Inr (dict_get d ''projectArn'')
      | Inr v \<Rightarrow> Inr v)"

section \<open>Tables\<close>

text \<open>
  A pandas table is its list of column labels and its rows. A row stores the cells that
  hold a value, keyed by column label; a label a row has no entry for reads as the
  absent marker \<open>NaN\<close>. Every table the program builds, reads by label or aligns has
  the positions \<open>0, 1, ...\<close> as its index, so a row's index label is its position.
  Column labels are taken to be distinct within a table that is read by label.
\<close>

type_synonym row = dict

record dataframe =
  columns :: "string list"
  rws :: "row list"

text \<open>\<^verbatim>\<open>pd.DataFrame()\<close>\<close>

definition empty_frame :: dataframe where
  "empty_frame = \<lparr>columns = [], rws = []\<rparr>"

definition cell :: "row \<Rightarrow> string \<Rightarrow> pyval" where
  "cell r c = (case map_of r c of None \<Rightarrow> NaN | Some v \<Rightarrow> v)"

definition isna :: "pyval \<Rightarrow> bool" where
  "isna v = (v = NaN \<or> v = PNone)"

text \<open>Errors are threaded as Python threads exceptions: the first one leaves the function.\<close>

definition then_do :: "error + 'a \<Rightarrow> ('a \<Rightarrow> error + 'b) \<Rightarrow> error + 'b" where
  "then_do m f = (case m of Inl e \<Rightarrow> Inl e | Inr x \<Rightarrow> f x)"

text \<open>\<^verbatim>\<open>df[c]\<close>: the column as a series, \<^verbatim>\<open>KeyError\<close> when the table has no such label.\<close>

definition get_column :: "dataframe \<Rightarrow> string \<Rightarrow> error + pyval list" where
  "get_column df c =
     (if c \<in> set (columns df) then Inr (map (\<lambda>r. cell r c) (rws df)) else Inl (KeyError c))"

text \<open>\<^verbatim>\<open>series[0]\<close>: lookup of the index label 0.\<close>

definition at_label0 :: "pyval list \<Rightarrow> error + pyval" where
  "at_label0 vs = (case vs of [] \<Rightarrow> Inl (KeyError ''0'') | v # _ \<Rightarrow> Inr v)"

definition add_column :: "string list \<Rightarrow> string \<Rightarrow> string list" where
  "add_column cs c = (if c \<in> set cs then cs else cs @ [c])"

text \<open>\<^verbatim>\<open>df[c] = v\<close> for a scalar \<open>v\<close>: every row gets the value.\<close>

definition assign_scalar :: "dataframe \<Rightarrow> string \<Rightarrow> pyval \<Rightarrow> dataframe" where
  "assign_scalar df c v =
     \<lparr>columns = add_column (columns df) c, rws = map (AList.update c v) (rws df)\<rparr>"

text \<open>
  \<^verbatim>\<open>df[c] = series\<close>: the series is aligned on the index, so row \<open>i\<close> gets the entry of
  label \<open>i\<close>, and the absent marker when the series has none.
\<close>

definition assign_series :: "dataframe \<Rightarrow> string \<Rightarrow> pyval list \<Rightarrow> dataframe" where
  "assign_series df c vs =
     \<lparr>columns = add_column (columns df) c,
      rws = map (\<lambda>(i, r). AList.update c (if i < length vs then vs ! i else NaN) r)
                (enumerate 0 (rws df))\<rparr>"

text \<open>
  \<^verbatim>\<open>pd.concat(dfs)\<close> along the rows: the rows of all tables in order, under the union of
  their column labels (in order of first appearance). A row keeps the cells it has; the
  labels it lacks read as \<open>NaN\<close>.
\<close>

definition concat_rows :: "dataframe list \<Rightarrow> dataframe" where
  "concat_rows dfs =
     \<lparr>columns = fold (\<lambda>c cs. add_column cs c) (concat (map columns dfs)) [],
      rws = concat (map rws dfs)\<rparr>"

text \<open>
  \<^verbatim>\<open>pd.concat([a, b], axis=1)\<close>: the columns of \<open>b\<close> beside those of \<open>a\<close>, rows joined
  on the index label.
\<close>

definition row_at :: "dataframe \<Rightarrow> nat \<Rightarrow> row" where
  "row_at df i = (if i < length (rws df) then rws df ! i else [])"

definition concat_columns :: "dataframe \<Rightarrow> dataframe \<Rightarrow> dataframe" where
  "concat_columns a b =
     \<lparr>columns = columns a @ columns b,
      rws = map (\<lambda>i. row_at a i @ row_at b i)
                [0 ..< max (length (rws a)) (length (rws b))]\<rparr>"

subsection \<open>\<^verbatim>\<open>pd.json_normalize\<close>\<close>

text \<open>
  Nested dictionaries are flattened into dotted labels; every other value, a list too,
  stays one cell. A key is taken to occur once among a record's flattened labels.
\<close>

fun normalise_json :: "string \<Rightarrow> pyval \<Rightarrow> dict"
  and normalise_items :: "string \<Rightarrow> dict \<Rightarrow> dict" where
  "normalise_json key (PDict kvs) = normalise_items key kvs"
| "normalise_json key v = [(key, v)]"
| "normalise_items key [] = []"
| "normalise_items key ((k, v) # kvs) =
     normalise_json (if key = [] then k else key @ ''.'' @ k) v @ normalise_items key kvs"

fun is_dict :: "pyval \<Rightarrow> bool" where
  "is_dict (PDict kvs) = True"
| "is_dict v = False"

fun is_list :: "pyval \<Rightarrow> bool" where
  "is_list (PList xs) = True"
| "is_list v = False"

text \<open>The top-level scalars of a record come first, then the flattened nested ones.\<close>

definition normalise_json_ordered :: "dict \<Rightarrow> dict" where
  "normalise_json_ordered d =
     filter (\<lambda>kv. \<not> is_dict (snd kv)) d @ normalise_items [] (filter (\<lambda>kv. is_dict (snd kv)) d)"

text \<open>
  One record per entry of the series: a dictionary is flattened, an entry that is no
  dictionary (the absent marker, a scalar) gives the empty record, as the plain call
  \<^verbatim>\<open>pd.json_normalize(series)\<close> of pandas 1.3 and later does.
\<close>

fun simple_json_normalize :: "pyval \<Rightarrow> dict" where
  "simple_json_normalize (PDict kvs) = normalise_json_ordered kvs"
| "simple_json_normalize v = []"

text \<open>
  The table of the records: one row each, under the union of their keys. A series with
  a list among its entries does not give a list of records, and the table constructor
  raises.
\<close>

definition json_normalize :: "pyval list \<Rightarrow> error + dataframe" where
  "json_normalize vs =
     (if list_ex is_list vs then Inl (TypeError ''records'')
      else let records = map simple_json_normalize vs in
        Inr \<lparr>columns = fold (\<lambda>c cs. add_column cs c) (concat (map (map fst) records)) [],
             rws = records\<rparr>)"

subsection \<open>\<^verbatim>\<open>DataFrame.explode\<close>\<close>

text \<open>
  A list-like cell gives one row per element, an empty list-like one row with the
  absent marker, any other cell the row as it is. A dictionary is list-like and
  iterates over its keys.
\<close>

fun explode_cell :: "pyval \<Rightarrow> pyval list" where
  "explode_cell (PList []) = [NaN]"
| "explode_cell (PList xs) = xs"
| "explode_cell (PDict []) = [NaN]"
| "explode_cell (PDict kvs) = map (\<lambda>kv. PStr (fst kv)) kvs"
| "explode_cell v = [v]"

definition explode :: "dataframe \<Rightarrow> string \<Rightarrow> error + dataframe" where
  "explode df c =
     (if \<not> distinct (columns df) then Inl (ValueError ''columns must be unique'')
      else if c \<notin> set (columns df) then Inl (KeyError c)
      else Inr \<lparr>columns = columns df,
                rws = concat (map (\<lambda>r. map (\<lambda>v. AList.update c v r) (explode_cell (cell r c)))
                                  (rws df))\<rparr>)"

section \<open>Loading the results\<close>

text \<open>
  Blob storage is reached through \<^verbatim>\<open>wr.s3.read_json\<close>, which returns the table read or
  raises. Both ways the program calls it are parameters of the model: \<open>read_json\<close>
  reads the manifest, \<open>fetch\<close> reads a detail document as one record per line.
  A path that is not a string is not a location, and the read raises.
\<close>

definition read_s3 :: "(string \<Rightarrow> error + dataframe) \<Rightarrow> pyval \<Rightarrow> error + dataframe" where
  "read_s3 fetch s3_uri =
     (case s3_uri of PStr u \<Rightarrow> fetch u | _ \<Rightarrow> Inl (TypeError ''path''))"

text \<open>\<^verbatim>\<open>series.dropna().items()\<close>: the (label, value) pairs of the entries that are present.\<close>

definition dropna_items :: "pyval list \<Rightarrow> (nat \<times> pyval) list" where
  "dropna_items vs = filter (\<lambda>iv. \<not> isna (snd iv)) (enumerate 0 vs)"

text \<open>
  The loop of \<^verbatim>\<open>read_custom_out_path_and_load\<close>. The \<^verbatim>\<open>try\<close> block reads the document
  and tags its rows; \<^verbatim>\<open>except Exception\<close> prints and goes on to the next location.
\<close>

fun load_each ::
  "(string \<Rightarrow> error + dataframe) \<Rightarrow> (nat \<times> pyval) list \<Rightarrow> dataframe list \<Rightarrow> dataframe list" where
  "load_each fetch [] dfs = dfs"
| "load_each fetch ((idx, s3_uri) # rest) dfs =
     (case read_s3 fetch s3_uri of
        Inl e \<Rightarrow> load_each fetch rest dfs
      | Inr df_temp \<Rightarrow>
          load_each fetch rest
            (dfs @ [assign_scalar (assign_scalar df_temp ''source_index'' (PInt (int idx)))
                      ''source_file'' s3_uri]))"

definition read_custom_out_path_and_load ::
  "(string \<Rightarrow> error + dataframe) \<Rightarrow> dataframe \<Rightarrow> string \<Rightarrow> error + dataframe" where
  "read_custom_out_path_and_load fetch final_df path_column =
     then_do (get_column final_df path_column) (\<lambda>paths.
       let dfs = load_each fetch (dropna_items paths) [] in
       if dfs \<noteq> [] then Inr (concat_rows dfs) else Inr empty_frame)"

definition retrieve_inference_results ::
  "(string \<Rightarrow> error + dataframe) \<Rightarrow> string \<Rightarrow> error + dataframe" where
  "retrieve_inference_results read_json s3_uri =
     then_do (read_json s3_uri) (\<lambda>df.
     then_do (get_column df ''output_metadata'') (\<lambda>output_metadata.
     then_do (json_normalize output_metadata) (\<lambda>normalized.
     let df_invocation_metadata = concat_columns df normalized in
     then_do (explode df_invocation_metadata ''segment_metadata'') (\<lambda>df_exploded_output.
     then_do (get_column df_exploded_output ''segment_metadata'') (\<lambda>segment_metadata.
     then_do (json_normalize segment_metadata) (\<lambda>segments.
       Inr (concat_columns df_exploded_output segments)))))))"

section \<open>Reconciling the two outputs in \<open>main\<close> (lines 281-313)\<close>

text \<open>Lines 283-290: the custom output, with the matched blueprint's name as a column.\<close>

definition custom_details ::
  "(string \<Rightarrow> error + dataframe) \<Rightarrow> dataframe \<Rightarrow> error + dataframe" where
  "custom_details fetch exploded_job_metadata =
     (if ''custom_output_path'' \<in> set (columns exploded_job_metadata) then
        then_do (read_custom_out_path_and_load fetch exploded_job_metadata ''custom_output_path'')
          (\<lambda>custom_extracted_details.
        then_do (get_column custom_extracted_details ''matched_blueprint'') (\<lambda>matched.
        then_do (json_normalize matched) (\<lambda>normalized.
        then_do (get_column normalized ''name'') (\<lambda>names.
          Inr (assign_series custom_extracted_details ''blueprintName'' names)))))
      else Inr empty_frame)"

text \<open>Lines 295-306: the branch on \<^verbatim>\<open>modality_extracted\<close>, applied to the standard table.\<close>

definition modality_details :: "pyval \<Rightarrow> dataframe \<Rightarrow> error + dataframe" where
  "modality_details modality_extracted standard_extracted_details =
     (if modality_extracted = PStr ''IMAGE'' then
        then_do (get_column standard_extracted_details ''image'') (\<lambda>image.
        then_do (json_normalize image) (\<lambda>normalized_image_details.
        then_do (get_column normalized_image_details ''summary'') (\<lambda>summary.
        then_do (get_column normalized_image_details ''text_words'') (\<lambda>text_words.
        then_do (get_column normalized_image_details ''text_lines'') (\<lambda>text_lines.
          Inr (assign_series
                (assign_series
                  (assign_series standard_extracted_details ''summary'' summary)
                  ''extracted_text_words'' text_words)
                ''extracted_text_lines'' text_lines))))))
      else if modality_extracted = PStr ''VIDEO'' then
        then_do (get_column standard_extracted_details ''video'') (\<lambda>video.
        then_do (json_normalize video) (\<lambda>normalized_image_details.
        then_do (get_column normalized_image_details ''summary'') (\<lambda>summary.
        then_do (get_column normalized_image_details ''transcript.representation.text'')
          (\<lambda>transcript.
          Inr (assign_series
                (assign_series standard_extracted_details ''summary'' summary)
                ''extracted_transcript'' transcript)))))
      else Inr standard_extracted_details)"

text \<open>
  Lines 281-313, from the expanded manifest to the table handed to the sink:
  \<^verbatim>\<open>modality_extracted = exploded_job_metadata["semantic_modality"][0]\<close>, the custom
  table, the standard table, the modality branch, and \<^verbatim>\<open>pd.concat\<close> of the two.
\<close>

definition main_results ::
  "(string \<Rightarrow> error + dataframe) \<Rightarrow> dataframe \<Rightarrow> error + dataframe" where
  "main_results fetch exploded_job_metadata =
     then_do (get_column exploded_job_metadata ''semantic_modality'') (\<lambda>modalities.
     then_do (at_label0 modalities) (\<lambda>modality_extracted.
     then_do (custom_details fetch exploded_job_metadata) (\<lambda>custom_extracted_details.
     then_do (read_custom_out_path_and_load fetch exploded_job_metadata ''standard_output_path'')
       (\<lambda>standard_extracted_details.
     then_do (modality_details modality_extracted standard_extracted_details) (\<lambda>standard.
       Inr (concat_rows [custom_extracted_details, standard]))))))"

section \<open>Vocabulary of the properties\<close>

text \<open>The projects the service lists, across all pages, in listing order.\<close>

definition listed_projects :: "bda_client \<Rightarrow> dict list" where
  "listed_projects c =
     concat (map (\<lambda>pg. case pg of None \<Rightarrow> [] | Some ps \<Rightarrow> ps) (project_pages c))"

text \<open>
  The cells of a path column as \<^verbatim>\<open>main\<close> reads them; the custom column is optional and
  contributes nothing when the manifest has none.
\<close>

definition path_cells :: "dataframe \<Rightarrow> string \<Rightarrow> pyval list" where
  "path_cells df c = (if c \<in> set (columns df) then map (\<lambda>r. cell r c) (rws df) else [])"

text \<open>A record of a detail document, tagged with the manifest row and location it came from.\<close>

definition tagged :: "nat \<Rightarrow> pyval \<Rightarrow> row \<Rightarrow> row" where
  "tagged idx s3_uri r =
     AList.update ''source_file'' s3_uri (AList.update ''source_index'' (PInt (int idx)) r)"

text \<open>The tagged records of the locations that could be read, in manifest order.\<close>

definition loaded_rows :: "(string \<Rightarrow> error + dataframe) \<Rightarrow> (nat \<times> pyval) list \<Rightarrow> row list" where
  "loaded_rows fetch items =
     concat (map (\<lambda>(idx, s3_uri). case read_s3 fetch s3_uri of
                    Inl e \<Rightarrow> []
                  | Inr d \<Rightarrow> map (tagged idx s3_uri) (rws d)) items)"

text \<open>
  The locations of a path column that are present and could be read, each once per
  record of its document.
\<close>

definition fetched_sources :: "(string \<Rightarrow> error + dataframe) \<Rightarrow> pyval list \<Rightarrow> pyval list" where
  "fetched_sources fetch paths =
     concat (map (\<lambda>s3_uri. case read_s3 fetch s3_uri of
                    Inl e \<Rightarrow> []
                  | Inr d \<Rightarrow> replicate (length (rws d)) s3_uri)
                 (filter (\<lambda>v. \<not> isna v) paths))"

text \<open>
  A manifest row with its output metadata flattened beside it, its segment-metadata
  entries, and the rows it expands to: one per entry, the entry in place of the list and
  the entry's flattened metadata beside the row's columns.
\<close>

definition flattened_row :: "row \<Rightarrow> row" where
  "flattened_row r = r @ simple_json_normalize (cell r ''output_metadata'')"

definition segment_entries :: "row \<Rightarrow> pyval" where
  "segment_entries r = cell (flattened_row r) ''segment_metadata''"

definition segment_count :: "row \<Rightarrow> nat" where
  "segment_count r = (case segment_entries r of PList segs \<Rightarrow> length segs | _ \<Rightarrow> 0)"

definition expanded_rows :: "row \<Rightarrow> row list" where
  "expanded_rows r =
     map (\<lambda>v. AList.update ''segment_metadata'' v (flattened_row r) @ simple_json_normalize v)
         (explode_cell (segment_entries r))"

subsection \<open>Example documents and manifests\<close>

text \<open>
  A blob store with detail documents of one record each: the standard output of an
  image (at two locations), the standard output of a video, and a custom output. Every
  other location fails to read.
\<close>

definition image_document :: dataframe where
  "image_document =
     \<lparr>columns = [''image''],
      rws = [[(''image'', PDict [(''summary'', PStr ''x''),
                                 (''text_words'', PList [PStr ''a'', PStr ''b'']),
                                 (''text_lines'', PList [PStr ''ab''])])]]\<rparr>"

definition video_document :: dataframe where
  "video_document =
     \<lparr>columns = [''video''],
      rws = [[(''video'', PDict [(''summary'', PStr ''v''),
                                 (''transcript'', PDict
                                    [(''representation'', PDict [(''text'', PStr ''hello'')])])])]]\<rparr>"

text \<open>
  The standard output of a video with further fields around the transcript, in another
  order.
\<close>

definition long_video_document :: dataframe where
  "long_video_document =
     \<lparr>columns = [''metadata'', ''video''],
      rws = [[(''metadata'', PDict [(''asset_id'', PInt 0)]),
              (''video'', PDict
                 [(''transcript'', PDict
                     [(''language'', PStr ''en''),
                      (''representation'', PDict [(''text'', PStr ''hello'')])]),
                  (''statistics'', PDict [(''shot_count'', PInt 3)]),
                  (''summary'', PStr ''v'')])]]\<rparr>"

definition custom_document :: dataframe where
  "custom_document =
     \<lparr>columns = [''matched_blueprint'', ''inference_result''],
      rws = [[(''matched_blueprint'', PDict [(''arn'', PStr ''arn:bp''),
                                             (''name'', PStr ''Advertisement'')]),
              (''inference_result'', PDict [(''product'', PStr ''burger'')])]]\<rparr>"

definition storage :: "string \<Rightarrow> error + dataframe" where
  "storage u =
     (if u = ''s3://b/img'' \<or> u = ''s3://b/img2'' then Inr image_document
      else if u = ''s3://b/vid'' then Inr video_document
      else if u = ''s3://b/cus'' then Inr custom_document
      else Inl (ServiceError ''NoSuchKey''))"

text \<open>An expanded manifest of two segments, the first tagged IMAGE, the second VIDEO.\<close>

definition mixed_manifest :: dataframe where
  "mixed_manifest =
     \<lparr>columns = [''semantic_modality'', ''standard_output_path''],
      rws = [[(''semantic_modality'', PStr ''IMAGE''), (''standard_output_path'', PStr ''s3://b/img'')],
             [(''semantic_modality'', PStr ''VIDEO''), (''standard_output_path'', PStr ''s3://b/vid'')]]\<rparr>"

text \<open>Two image segments; the standard output of the second cannot be read.\<close>

definition partial_manifest :: dataframe where
  "partial_manifest =
     \<lparr>columns = [''semantic_modality'', ''standard_output_path''],
      rws = [[(''semantic_modality'', PStr ''IMAGE''), (''standard_output_path'', PStr ''s3://b/img'')],
             [(''semantic_modality'', PStr ''IMAGE''), (''standard_output_path'', PStr ''s3://b/gone'')]]\<rparr>"

text \<open>One image segment whose custom output cannot be read; its standard output can.\<close>

definition lost_custom_manifest :: dataframe where
  "lost_custom_manifest =
     \<lparr>columns = [''semantic_modality'', ''custom_output_path'', ''standard_output_path''],
      rws = [[(''semantic_modality'', PStr ''IMAGE''),
              (''custom_output_path'', PStr ''s3://b/gone''),
              (''standard_output_path'', PStr ''s3://b/img'')]]\<rparr>"

text \<open>Segment A with a custom and a standard output, segment B with a standard output only.\<close>

definition two_segment_manifest :: dataframe where
  "two_segment_manifest =
     \<lparr>columns = [''semantic_modality'', ''custom_output_path'', ''standard_output_path''],
      rws = [[(''semantic_modality'', PStr ''IMAGE''),
              (''custom_output_path'', PStr ''s3://b/cus''),
              (''standard_output_path'', PStr ''s3://b/img'')],
             [(''semantic_modality'', PStr ''IMAGE''),
              (''standard_output_path'', PStr ''s3://b/img2'')]]\<rparr>"

text \<open>
  Manifest documents as read from storage, before expansion: one of two rows with three
  segments and one segment, and one whose only row has an empty segment list.
\<close>

definition segment :: "string \<Rightarrow> pyval" where
  "segment u = PDict [(''standard_output_path'', PStr u)]"

definition raw_manifest :: dataframe where
  "raw_manifest =
     \<lparr>columns = [''job_id'', ''semantic_modality'', ''output_metadata''],
      rws = [[(''job_id'', PStr ''j''), (''semantic_modality'', PStr ''VIDEO''),
              (''output_metadata'', PDict
                 [(''asset_id'', PInt 0),
                  (''segment_metadata'', PList [segment ''a'', segment ''b'', segment ''c''])])],
             [(''job_id'', PStr ''j''), (''semantic_modality'', PStr ''VIDEO''),
              (''output_metadata'', PDict
                 [(''asset_id'', PInt 1),
                  (''segment_metadata'', PList [segment ''d''])])]]\<rparr>"

definition raw_manifest_no_segment :: dataframe where
  "raw_manifest_no_segment =
     \<lparr>columns = [''job_id'', ''semantic_modality'', ''output_metadata''],
      rws = [[(''job_id'', PStr ''j''), (''semantic_modality'', PStr ''IMAGE''),
              (''output_metadata'', PDict
                 [(''asset_id'', PInt 0), (''segment_metadata'', PList [])])]]\<rparr>"

section \<open>The status poller: when polling goes on and when it stops\<close>

lemma poll_loop_stop:
  "dict_get st ''status'' \<noteq> PStr ''InProgress'' \<Longrightarrow>
   poll_loop st sc tr = Inr (st, \<lparr>script = sc, trace = tr\<rparr>)"
  by (cases sc) simp_all

lemma poll_loop_run:
  "\<forall>st \<in> set running. dict_get st ''status'' = PStr ''InProgress'' \<Longrightarrow>
   dict_get fin ''status'' \<noteq> PStr ''InProgress'' \<Longrightarrow>
   poll_loop (hd (running @ [fin])) (map Inr (tl (running @ [fin]) @ later)) tr =
     Inr (fin, \<lparr>script = map Inr later,
                trace = tr @ concat (replicate (length running) [Sleep 10, Poll])\<rparr>)"
proof (induction running arbitrary: tr)
  case Nil
  then show ?case by (simp add: poll_loop_stop)
next
  case (Cons a running)
  have a: "dict_get a ''status'' = PStr ''InProgress''"
    using Cons.prems by simp
  obtain b rest where br: "running @ [fin] = b # rest"
    by (cases "running @ [fin]") auto
  have "poll_loop a (map Inr ((running @ [fin]) @ later)) tr =
        poll_loop b (map Inr (rest @ later)) (tr @ [Sleep 10, Poll])"
    using a br by simp
  also have "\<dots> = poll_loop (hd (running @ [fin])) (map Inr (tl (running @ [fin]) @ later))
                      (tr @ [Sleep 10, Poll])"
    using br by simp
  also have "\<dots> = Inr (fin, \<lparr>script = map Inr later,
        trace = (tr @ [Sleep 10, Poll]) @ concat (replicate (length running) [Sleep 10, Poll])\<rparr>)"
    using Cons.IH[of "tr @ [Sleep 10, Poll]"] Cons.prems by simp
  finally show ?case by simp
qed

text \<open>
  Claim C3, as the code has it. The loop condition is the single comparison
  \<^verbatim>\<open>status == "InProgress"\<close>. For every sequence of observed statuses, each poll that
  returns \<^verbatim>\<open>InProgress\<close> is followed by the fixed delay of 10 seconds and another poll,
  and polling stops exactly at the first status that is not \<^verbatim>\<open>InProgress\<close>, whichever
  it is: that payload is returned and the later replies are never queried.
\<close>

theorem poll_stops_at_first_other_status:
  assumes "\<forall>st \<in> set running. dict_get st ''status'' = PStr ''InProgress''"
    and "dict_get fin ''status'' \<noteq> PStr ''InProgress''"
  shows "await_completion \<lparr>script = map Inr (running @ fin # later), trace = []\<rparr> =
         Inr (fin, \<lparr>script = map Inr later,
                    trace = Poll # concat (replicate (length running) [Sleep 10, Poll])\<rparr>)"
proof -
  obtain b rest where br: "running @ [fin] = b # rest"
    by (cases "running @ [fin]") auto
  have eq: "running @ fin # later = b # (rest @ later)"
    using br by (metis append_Cons append_Nil append_assoc)
  have "await_completion \<lparr>script = map Inr (running @ fin # later), trace = []\<rparr> =
        poll_loop b (map Inr (rest @ later)) [Poll]"
    unfolding eq by (simp add: await_completion_def get_bda_inference_status_def)
  also have "\<dots> = poll_loop (hd (running @ [fin])) (map Inr (tl (running @ [fin]) @ later)) [Poll]"
    using br by simp
  finally show ?thesis
    using poll_loop_run[OF assms, of later "[Poll]"] by simp
qed

text \<open>
  The theorem at a job that is first reported as created, then twice in progress, then
  failed: the created status already ends the polling.
\<close>

theorem poll_stops_at_first_other_status_witness:
  "await_completion
     \<lparr>script = map Inr ([] @ [(''status'', PStr ''Created'')] #
                 [[(''status'', PStr ''InProgress'')], [(''status'', PStr ''ServiceError'')]]),
      trace = []\<rparr> =
   Inr ([(''status'', PStr ''Created'')],
        \<lparr>script = map Inr [[(''status'', PStr ''InProgress'')], [(''status'', PStr ''ServiceError'')]],
         trace = Poll # concat (replicate (length ([] :: dict list)) [Sleep 10, Poll])\<rparr>)
   \<and> await_completion
     \<lparr>script = map Inr ([[(''status'', PStr ''InProgress'')], [(''status'', PStr ''InProgress'')]] @
                 [(''status'', PStr ''ServiceError'')] # []),
      trace = []\<rparr> =
   Inr ([(''status'', PStr ''ServiceError'')],
        \<lparr>script = map Inr [],
         trace = Poll # concat (replicate
           (length [[(''status'', PStr ''InProgress'')], [(''status'', PStr ''InProgress'')]])
           [Sleep 10, Poll])\<rparr>)"
proof
  show "await_completion
     \<lparr>script = map Inr ([] @ [(''status'', PStr ''Created'')] #
                 [[(''status'', PStr ''InProgress'')], [(''status'', PStr ''ServiceError'')]]),
      trace = []\<rparr> =
   Inr ([(''status'', PStr ''Created'')],
        \<lparr>script = map Inr [[(''status'', PStr ''InProgress'')], [(''status'', PStr ''ServiceError'')]],
         trace = Poll # concat (replicate (length ([] :: dict list)) [Sleep 10, Poll])\<rparr>)"
    by (rule poll_stops_at_first_other_status) (simp_all add: dict_get_def)
  show "await_completion
     \<lparr>script = map Inr ([[(''status'', PStr ''InProgress'')], [(''status'', PStr ''InProgress'')]] @
                 [(''status'', PStr ''ServiceError'')] # []),
      trace = []\<rparr> =
   Inr ([(''status'', PStr ''ServiceError'')],
        \<lparr>script = map Inr [],
         trace = Poll # concat (replicate
           (length [[(''status'', PStr ''InProgress'')], [(''status'', PStr ''InProgress'')]])
           [Sleep 10, Poll])\<rparr>)"
    by (rule poll_stops_at_first_other_status) (simp_all add: dict_get_def)
qed

text \<open>
  Claim C3 as stated fails: a job still reported as submitted (the service's
  \<^verbatim>\<open>Created\<close>; likewise the literal \<^verbatim>\<open>SUBMITTED\<close>) is not treated like one in progress.
  The first poll returns it, no delay and no further poll follow, and the payload of the
  job that has not run yet is returned although the later replies would have been
  \<^verbatim>\<open>InProgress\<close> and \<^verbatim>\<open>Success\<close>.
\<close>

theorem submitted_status_stops_polling:
  "await_completion
     \<lparr>script = [Inr [(''status'', PStr ''Created'')],
                Inr [(''status'', PStr ''InProgress'')],
                Inr [(''status'', PStr ''Success'')]],
      trace = []\<rparr> =
   Inr ([(''status'', PStr ''Created'')],
        \<lparr>script = [Inr [(''status'', PStr ''InProgress'')], Inr [(''status'', PStr ''Success'')]],
         trace = [Poll]\<rparr>)
   \<and> await_completion
     \<lparr>script = [Inr [(''status'', PStr ''SUBMITTED'')],
                Inr [(''status'', PStr ''InProgress'')],
                Inr [(''status'', PStr ''Success'')]],
      trace = []\<rparr> =
   Inr ([(''status'', PStr ''SUBMITTED'')],
        \<lparr>script = [Inr [(''status'', PStr ''InProgress'')], Inr [(''status'', PStr ''Success'')]],
         trace = [Poll]\<rparr>)"
  by (simp add: await_completion_def get_bda_inference_status_def dict_get_def)

text \<open>
  Claim C4. For the scripted status sequence in progress, in progress, succeeded, the
  poller polls, sleeps 10 seconds, polls, sleeps 10 seconds, polls: exactly two delayed
  re-polls. It returns exactly the third payload (whatever it carries, the output
  configuration with the manifest location included) and has consumed the whole script.
\<close>

theorem await_two_repolls:
  assumes "dict_get a ''status'' = PStr ''InProgress''"
    and "dict_get b ''status'' = PStr ''InProgress''"
    and "dict_get s ''status'' \<noteq> PStr ''InProgress''"
  shows "await_completion \<lparr>script = [Inr a, Inr b, Inr s], trace = []\<rparr> =
         Inr (s, \<lparr>script = [], trace = [Poll, Sleep 10, Poll, Sleep 10, Poll]\<rparr>)"
  using assms by (simp add: await_completion_def get_bda_inference_status_def)

theorem await_two_repolls_witness:
  "await_completion
     \<lparr>script = [Inr [(''status'', PStr ''InProgress'')],
                Inr [(''status'', PStr ''InProgress'')],
                Inr [(''status'', PStr ''Success''),
                     (''outputConfiguration'',
                      PDict [(''s3Uri'', PStr ''s3://bucket/inference_results/job_metadata.json'')])]],
      trace = []\<rparr> =
   Inr ([(''status'', PStr ''Success''),
         (''outputConfiguration'',
          PDict [(''s3Uri'', PStr ''s3://bucket/inference_results/job_metadata.json'')])],
        \<lparr>script = [], trace = [Poll, Sleep 10, Poll, Sleep 10, Poll]\<rparr>)"
  by (rule await_two_repolls) (simp_all add: dict_get_def)

section \<open>Provisioning: the existence check and create-if-absent\<close>

lemma find_project_append:
  "find_project (ps @ qs) n =
     (case find_project ps n of Some p \<Rightarrow> Some p | None \<Rightarrow> find_project qs n)"
  by (induction ps) auto

lemma find_project_None:
  "find_project ps n = None \<longleftrightarrow> (\<forall>p \<in> set ps. dict_get p ''projectName'' \<noteq> PStr n)"
  by (induction ps) auto

lemma find_project_Some:
  "find_project ps n = Some p \<Longrightarrow> p \<in> set ps \<and> dict_get p ''projectName'' = PStr n"
  by (induction ps) (auto split: if_splits)

lemma named_nonempty: "dict_get p ''projectName'' = PStr n \<Longrightarrow> p \<noteq> []"
  by (auto simp: dict_get_def)

lemma project_exists_pages_find:
  "project_exists_pages pages n =
     (case find_project (concat (map (\<lambda>pg. case pg of None \<Rightarrow> [] | Some ps \<Rightarrow> ps) pages)) n of
        Some p \<Rightarrow> PDict p
      | None \<Rightarrow> PBool False)"
  by (induction pages) (auto simp: find_project_append split: option.splits)

lemma project_exists_find:
  "project_exists c n =
     (case find_project (listed_projects c) n of Some p \<Rightarrow> PDict p | None \<Rightarrow> PBool False)"
  by (simp add: project_exists_def listed_projects_def project_exists_pages_find)

text \<open>
  The check is right as a truth value: its result is truthy exactly when some page
  lists a project of the name.
\<close>

lemma truthy_project_exists:
  "truthy (project_exists c n) \<longleftrightarrow>
     (\<exists>p \<in> set (listed_projects c). dict_get p ''projectName'' = PStr n)"
proof (cases "find_project (listed_projects c) n")
  case None
  then show ?thesis
    using find_project_None[of "listed_projects c" n] by (simp add: project_exists_find)
next
  case (Some p)
  then show ?thesis
    using find_project_Some[OF Some] named_nonempty by (auto simp: project_exists_find)
qed

text \<open>But it is never the boolean \<open>True\<close>, whatever the service lists.\<close>

lemma project_exists_not_True: "project_exists c n \<noteq> PBool True"
  by (simp add: project_exists_find split: option.splits)

lemma create_existing:
  assumes "find_project (listed_projects c) n = Some p"
  shows "create_bda_project adv c n d s = (Inr (PDict p), c)"
  using assms find_project_Some[OF assms] named_nonempty[of p n]
  by (simp add: create_bda_project_def project_exists_find Let_def)

lemma create_absent_no_arn:
  assumes "find_project (listed_projects c) n = None" and "\<not> truthy adv"
  shows "create_bda_project adv c n d s =
         (Inl (ValueError ''Advertisement blueprint ARN not found.''), c)"
  using assms by (simp add: create_bda_project_def project_exists_find Let_def)

lemma create_absent_arn:
  assumes "find_project (listed_projects c) n = None" and "truthy adv"
  shows "\<exists>req. create_bda_project adv c n d s =
     (Inr (PDict [(''projectArn'', PStr (arn_of c n)), (''projectStage'', PStr s),
                  (''status'', PStr ''COMPLETED'')]),
      c\<lparr>project_pages := project_pages c @
           [Some [[(''projectArn'', PStr (arn_of c n)), (''projectStage'', PStr s),
                   (''projectName'', PStr n)]]],
        create_requests := create_requests c @ [req]\<rparr>)"
  using assms
  by (simp add: create_bda_project_def project_exists_find Let_def
        create_data_automation_project_def dict_get_def del: ex_simps) blast

lemma listed_after_create:
  "listed_projects (c\<lparr>project_pages := project_pages c @ [Some [x]], create_requests := rs\<rparr>) =
     listed_projects c @ [x]"
  by (simp add: listed_projects_def)

text \<open>
  Claim C5. Take any two successive calls of \<^verbatim>\<open>create_bda_project\<close> with the same name
  (the descriptions and stages may differ). If the service already lists a project of
  that name, the first call returns that listed project as it is and leaves the service
  untouched: no create request is issued. In every case the second call leaves the
  service as the first call left it, so that the two calls together issue at most one
  create request, and both calls hand back the same identity: the same project resource
  name, or the same exception when the advertisement blueprint is missing.
\<close>

theorem provisioning_idempotent:
  assumes first: "create_bda_project adv c n d s = (r1, c1)"
    and second: "create_bda_project adv c1 n d' s' = (r2, c2)"
  shows "((\<exists>p \<in> set (listed_projects c). dict_get p ''projectName'' = PStr n) \<longrightarrow>
            (\<exists>p \<in> set (listed_projects c).
               dict_get p ''projectName'' = PStr n \<and> r1 = Inr (PDict p)) \<and> c1 = c)
       \<and> identity_of r2 = identity_of r1
       \<and> c2 = c1
       \<and> length (create_requests c2) \<le> Suc (length (create_requests c))"
proof (cases "find_project (listed_projects c) n")
  case (Some p)
  have 1: "r1 = Inr (PDict p)" "c1 = c"
    using create_existing[OF Some, of adv d s] first by simp_all
  have 2: "r2 = Inr (PDict p)" "c2 = c"
    using create_existing[OF Some, of adv d' s'] second 1 by simp_all
  show ?thesis
    using find_project_Some[OF Some] 1 2 by auto
next
  case None
  note absent = None[unfolded find_project_None]
  show ?thesis
  proof (cases "truthy adv")
    case False
    have 1: "r1 = Inl (ValueError ''Advertisement blueprint ARN not found.'')" "c1 = c"
      using create_absent_no_arn[OF None False, of d s] first by simp_all
    have 2: "r2 = r1" "c2 = c"
      using create_absent_no_arn[OF None False, of d' s'] second 1 by simp_all
    show ?thesis
      using absent 1 2 by simp
  next
    case True
    let ?summary = "[(''projectArn'', PStr (arn_of c n)), (''projectStage'', PStr s),
                     (''projectName'', PStr n)]"
    obtain req where req: "create_bda_project adv c n d s =
      (Inr (PDict [(''projectArn'', PStr (arn_of c n)), (''projectStage'', PStr s),
                   (''status'', PStr ''COMPLETED'')]),
       c\<lparr>project_pages := project_pages c @ [Some [?summary]],
         create_requests := create_requests c @ [req]\<rparr>)"
      using create_absent_arn[OF None True, of d s] by blast
    have r1: "r1 = Inr (PDict [(''projectArn'', PStr (arn_of c n)), (''projectStage'', PStr s),
                               (''status'', PStr ''COMPLETED'')])"
      and c1: "c1 = c\<lparr>project_pages := project_pages c @ [Some [?summary]],
                       create_requests := create_requests c @ [req]\<rparr>"
      using req first by simp_all
    have found: "find_project (listed_projects c1) n = Some ?summary"
      using None by (simp add: c1 listed_after_create find_project_append dict_get_def)
    have 2: "r2 = Inr (PDict ?summary)" "c2 = c1"
      using create_existing[OF found, of adv d' s'] second by simp_all
    show ?thesis
      using absent r1 c1 2 by (simp add: identity_of_def dict_get_def)
  qed
qed

text \<open>
  The theorem at two services: one that lists the project already, where the call
  returns the listed project and leaves the service as it is even without a blueprint,
  and one that lists nothing, where the first call creates the project, the second
  finds it, both hand back the same resource name and one create request was issued.
\<close>

theorem provisioning_idempotent_witness:
  "(\<exists>p \<in> set (listed_projects
        \<lparr>blueprint_listing = [],
         project_pages = [None, Some [[(''projectName'', PStr ''Ads''), (''projectArn'', PStr ''arn:ads'')]]],
         arn_of = (\<lambda>n. ''arn:project/'' @ n), create_requests = []\<rparr>).
      dict_get p ''projectName'' = PStr ''Ads'')
   \<and> create_bda_project PNone
        \<lparr>blueprint_listing = [],
         project_pages = [None, Some [[(''projectName'', PStr ''Ads''), (''projectArn'', PStr ''arn:ads'')]]],
         arn_of = (\<lambda>n. ''arn:project/'' @ n), create_requests = []\<rparr>
        ''Ads'' ''first'' ''LIVE'' =
       (Inr (PDict [(''projectName'', PStr ''Ads''), (''projectArn'', PStr ''arn:ads'')]),
        \<lparr>blueprint_listing = [],
         project_pages = [None, Some [[(''projectName'', PStr ''Ads''), (''projectArn'', PStr ''arn:ads'')]]],
         arn_of = (\<lambda>n. ''arn:project/'' @ n), create_requests = []\<rparr>)
   \<and> identity_of (fst (create_bda_project (PStr ''arn:blueprint'')
         (snd (create_bda_project (PStr ''arn:blueprint'')
            \<lparr>blueprint_listing = [], project_pages = [],
             arn_of = (\<lambda>n. ''arn:project/'' @ n), create_requests = []\<rparr>
            ''Ads'' ''first'' ''LIVE''))
         ''Ads'' ''second'' ''LIVE'')) = Inr (PStr ''arn:project/Ads'')
   \<and> identity_of (fst (create_bda_project (PStr ''arn:blueprint'')
            \<lparr>blueprint_listing = [], project_pages = [],
             arn_of = (\<lambda>n. ''arn:project/'' @ n), create_requests = []\<rparr>
            ''Ads'' ''first'' ''LIVE'')) = Inr (PStr ''arn:project/Ads'')
   \<and> length (create_requests (snd (create_bda_project (PStr ''arn:blueprint'')
         (snd (create_bda_project (PStr ''arn:blueprint'')
            \<lparr>blueprint_listing = [], project_pages = [],
             arn_of = (\<lambda>n. ''arn:project/'' @ n), create_requests = []\<rparr>
            ''Ads'' ''first'' ''LIVE''))
         ''Ads'' ''second'' ''LIVE''))) = 1"
proof -
  let ?cA = "\<lparr>blueprint_listing = [],
         project_pages = [None, Some [[(''projectName'', PStr ''Ads''), (''projectArn'', PStr ''arn:ads'')]]],
         arn_of = (\<lambda>n. ''arn:project/'' @ n), create_requests = []\<rparr>"
  let ?c0 = "\<lparr>blueprint_listing = [], project_pages = [],
             arn_of = (\<lambda>n. ''arn:project/'' @ n), create_requests = []\<rparr>"
  let ?adv = "PStr ''arn:blueprint''"
  have ex: "\<exists>p \<in> set (listed_projects ?cA). dict_get p ''projectName'' = PStr ''Ads''"
    by (simp add: listed_projects_def dict_get_def)
  obtain rA cA' where a1: "create_bda_project PNone ?cA ''Ads'' ''first'' ''LIVE'' = (rA, cA')"
    by (cases "create_bda_project PNone ?cA ''Ads'' ''first'' ''LIVE''")
  obtain rA2 cA2 where a2: "create_bda_project PNone cA' ''Ads'' ''first'' ''LIVE'' = (rA2, cA2)"
    by (cases "create_bda_project PNone cA' ''Ads'' ''first'' ''LIVE''")
  have A: "(\<exists>p \<in> set (listed_projects ?cA). dict_get p ''projectName'' = PStr ''Ads'' \<and> rA = Inr (PDict p)) \<and> cA' = ?cA"
    using provisioning_idempotent[OF a1 a2] ex by blast
  have rA: "rA = Inr (PDict [(''projectName'', PStr ''Ads''), (''projectArn'', PStr ''arn:ads'')])"
    using A by (simp add: listed_projects_def)
  obtain r1 c1 where b1: "create_bda_project ?adv ?c0 ''Ads'' ''first'' ''LIVE'' = (r1, c1)"
    by (cases "create_bda_project ?adv ?c0 ''Ads'' ''first'' ''LIVE''")
  obtain r2 c2 where b2: "create_bda_project ?adv c1 ''Ads'' ''second'' ''LIVE'' = (r2, c2)"
    by (cases "create_bda_project ?adv c1 ''Ads'' ''second'' ''LIVE''")
  have B: "identity_of r2 = identity_of r1" "c2 = c1"
    using provisioning_idempotent[OF b1 b2] by simp_all
  have r1: "identity_of r1 = Inr (PStr ''arn:project/Ads'')" and c1: "length (create_requests c1) = 1"
    using b1 by (auto simp: create_bda_project_def project_exists_def Let_def
        create_data_automation_project_def dict_get_def identity_of_def)
  show ?thesis
    using ex a1 A rA b1 b2 B r1 c1 by simp
qed

text \<open>
  Claim C9 against the code. With a project of the name in the listing,
  \<^verbatim>\<open>_project_exists\<close> returns the listed project, a dictionary, where its annotation
  \<^verbatim>\<open>-> bool\<close> and its docstring promise \<open>True\<close>.
\<close>

theorem project_exists_returns_project:
  "project_exists
     \<lparr>blueprint_listing = [],
      project_pages = [Some [[(''projectName'', PStr ''BedrockDataAutomationProject''),
                              (''projectArn'', PStr ''arn:aws:bedrock:us-east-1:1:data-automation-project/p1'')]]],
      arn_of = (\<lambda>n. n), create_requests = []\<rparr>
     ''BedrockDataAutomationProject'' =
   PDict [(''projectName'', PStr ''BedrockDataAutomationProject''),
          (''projectArn'', PStr ''arn:aws:bedrock:us-east-1:1:data-automation-project/p1'')]
   \<and> project_exists
     \<lparr>blueprint_listing = [],
      project_pages = [Some [[(''projectName'', PStr ''BedrockDataAutomationProject''),
                              (''projectArn'', PStr ''arn:aws:bedrock:us-east-1:1:data-automation-project/p1'')]]],
      arn_of = (\<lambda>n. n), create_requests = []\<rparr>
     ''BedrockDataAutomationProject'' \<noteq> PBool True"
  by (simp add: project_exists_def dict_get_def)

section \<open>Loading detail documents\<close>

lemma then_do_simps [simp]:
  "then_do (Inl e) f = Inl e" "then_do (Inr x) f = f x"
  by (simp_all add: then_do_def)

lemma then_do_Inr: "then_do m f = Inr y \<longleftrightarrow> (\<exists>x. m = Inr x \<and> f x = Inr y)"
  by (cases m) simp_all

lemma cell_update: "cell (AList.update c v r) c' = (if c' = c then v else cell r c')"
  by (simp add: cell_def update_conv')

lemma rws_assign_scalar: "rws (assign_scalar df c v) = map (AList.update c v) (rws df)"
  by (simp add: assign_scalar_def)

lemma length_assign_series: "length (rws (assign_series df c vs)) = length (rws df)"
  by (simp add: assign_series_def)

lemma cells_assign_series:
  "c' \<noteq> c \<Longrightarrow> map (\<lambda>r. cell r c') (rws (assign_series df c vs)) = map (\<lambda>r. cell r c') (rws df)"
  by (rule nth_equalityI) (simp_all add: assign_series_def nth_enumerate_eq cell_update)

lemma nth_assign_series:
  "i < length (rws df) \<Longrightarrow>
   rws (assign_series df c vs) ! i = AList.update c (if i < length vs then vs ! i else NaN) (rws df ! i)"
  by (simp add: assign_series_def nth_enumerate_eq)

lemma rws_concat_rows: "rws (concat_rows dfs) = concat (map rws dfs)"
  by (simp add: concat_rows_def)

lemma load_each_rows:
  "concat (map rws (load_each fetch items dfs)) = concat (map rws dfs) @ loaded_rows fetch items"
proof (induction items arbitrary: dfs)
  case Nil
  show ?case by (simp add: loaded_rows_def)
next
  case (Cons it items)
  obtain idx uri where it: "it = (idx, uri)" by (cases it)
  show ?case
  proof (cases "read_s3 fetch uri")
    case (Inl e)
    then show ?thesis using Cons.IH[of dfs] by (simp add: it loaded_rows_def)
  next
    case (Inr d)
    then show ?thesis
      using Cons.IH[of "dfs @ [assign_scalar (assign_scalar d ''source_index'' (PInt (int idx))) ''source_file'' uri]"]
      by (simp add: it loaded_rows_def rws_assign_scalar tagged_def)
  qed
qed

lemma load_each_grows: "dfs \<noteq> [] \<Longrightarrow> load_each fetch items dfs \<noteq> []"
  by (induction fetch items dfs rule: load_each.induct) (auto split: sum.splits)

lemma load_each_all_fail:
  "\<forall>iv \<in> set items. \<exists>e. read_s3 fetch (snd iv) = Inl e \<Longrightarrow> load_each fetch items dfs = dfs"
  by (induction fetch items dfs rule: load_each.induct) auto

lemma read_total:
  assumes "c \<in> set (columns df)"
  shows "\<exists>out. read_custom_out_path_and_load fetch df c = Inr out \<and>
           rws out = loaded_rows fetch (dropna_items (map (\<lambda>r. cell r c) (rws df)))"
proof -
  let ?items = "dropna_items (map (\<lambda>r. cell r c) (rws df))"
  show ?thesis
  proof (cases "load_each fetch ?items [] = []")
    case True
    have "loaded_rows fetch ?items = []"
      using load_each_rows[of fetch ?items "[]"] True by simp
    then show ?thesis
      using assms True by (simp add: read_custom_out_path_and_load_def get_column_def empty_frame_def)
  next
    case False
    then show ?thesis
      using assms load_each_rows[of fetch ?items "[]"]
      by (simp add: read_custom_out_path_and_load_def get_column_def rws_concat_rows)
  qed
qed

lemma read_missing_column:
  "c \<notin> set (columns df) \<Longrightarrow> read_custom_out_path_and_load fetch df c = Inl (KeyError c)"
  by (simp add: read_custom_out_path_and_load_def get_column_def)

lemma snd_dropna_items: "map snd (dropna_items vs) = filter (\<lambda>v. \<not> isna v) vs"
proof -
  have "map snd (filter (\<lambda>iv. \<not> isna (snd iv)) xs) = filter (\<lambda>v. \<not> isna v) (map snd xs)" for xs :: "(nat \<times> pyval) list"
    by (induction xs) auto
  then show ?thesis by (simp add: dropna_items_def)
qed

lemma loaded_sources:
  "map (\<lambda>r. cell r ''source_file'') (loaded_rows fetch items) =
     concat (map (\<lambda>s3_uri. case read_s3 fetch s3_uri of
                     Inl e \<Rightarrow> [] | Inr d \<Rightarrow> replicate (length (rws d)) s3_uri) (map snd items))"
proof (induction items)
  case Nil
  show ?case by (simp add: loaded_rows_def)
next
  case (Cons it items)
  obtain idx uri where it: "it = (idx, uri)" by (cases it)
  have "map (\<lambda>r. cell r ''source_file'') (map (tagged idx uri) rs) = replicate (length rs) uri" for rs
    by (induction rs) (simp_all add: tagged_def cell_update)
  then show ?case
    using Cons.IH by (simp add: it loaded_rows_def split: sum.splits)
qed

text \<open>
  Claim C10. \<^verbatim>\<open>read_custom_out_path_and_load\<close>, called on a table that has the path
  column, returns a table whatever the reads do: an exception of a read at any location
  is caught and never reaches the caller. When no entry of the column is present, or
  when the read of every present entry fails, the table returned is the empty one, with
  no row. (A table without the path column is not a fetch failure: the column lookup
  raises \<^verbatim>\<open>KeyError\<close> before any read, see \<open>read_missing_column\<close>.)
\<close>

theorem read_never_raises_on_fetch_errors:
  assumes "path_column \<in> set (columns final_df)"
  shows "(\<exists>out. read_custom_out_path_and_load fetch final_df path_column = Inr out)
       \<and> ((\<forall>r \<in> set (rws final_df). isna (cell r path_column)) \<longrightarrow>
            read_custom_out_path_and_load fetch final_df path_column = Inr empty_frame)
       \<and> ((\<forall>r \<in> set (rws final_df). \<not> isna (cell r path_column) \<longrightarrow>
              (\<exists>e. read_s3 fetch (cell r path_column) = Inl e)) \<longrightarrow>
            read_custom_out_path_and_load fetch final_df path_column = Inr empty_frame)
       \<and> rws empty_frame = []"
proof -
  let ?items = "dropna_items (map (\<lambda>r. cell r path_column) (rws final_df))"
  have fail: "read_custom_out_path_and_load fetch final_df path_column = Inr empty_frame"
    if "\<forall>r \<in> set (rws final_df). \<not> isna (cell r path_column) \<longrightarrow>
              (\<exists>e. read_s3 fetch (cell r path_column) = Inl e)"
  proof -
    have "set (map snd ?items) \<subseteq> {v. \<not> isna v \<and> v \<in> (\<lambda>r. cell r path_column) ` set (rws final_df)}"
      unfolding snd_dropna_items by auto
    then have "\<forall>iv \<in> set ?items. \<exists>e. read_s3 fetch (snd iv) = Inl e"
      using that by auto
    then have "load_each fetch ?items [] = []"
      by (rule load_each_all_fail)
    then show ?thesis
      using assms by (simp add: read_custom_out_path_and_load_def get_column_def)
  qed
  show ?thesis
    using read_total[OF assms, of fetch] fail by (auto simp: empty_frame_def)
qed

text \<open>Evaluation of the example tables, used by the closed theorems below.\<close>

lemmas table_eval =
  main_results_def get_column_def at_label0_def custom_details_def
  read_custom_out_path_and_load_def dropna_items_def isna_def read_s3_def
  assign_scalar_def assign_series_def concat_rows_def add_column_def modality_details_def
  json_normalize_def normalise_json_ordered_def cell_def empty_frame_def
  storage_def image_document_def video_document_def custom_document_def

text \<open>
  The theorem at a manifest whose only custom location cannot be read, at a column
  with no entry present, and at a column where one read succeeds and one fails.
\<close>

theorem read_never_raises_on_fetch_errors_witness:
  "''custom_output_path'' \<in> set (columns lost_custom_manifest)
   \<and> read_custom_out_path_and_load storage lost_custom_manifest ''custom_output_path'' =
       Inr empty_frame
   \<and> read_custom_out_path_and_load storage
        \<lparr>columns = [''custom_output_path''], rws = [[], [(''custom_output_path'', PNone)]]\<rparr>
        ''custom_output_path'' = Inr empty_frame
   \<and> (\<exists>out. read_custom_out_path_and_load storage partial_manifest ''standard_output_path'' =
         Inr out)"
proof -
  let ?none = "\<lparr>columns = [''custom_output_path''], rws = [[], [(''custom_output_path'', PNone)]]\<rparr>"
  have c1: "''custom_output_path'' \<in> set (columns lost_custom_manifest)"
    by (simp add: lost_custom_manifest_def)
  have fails: "\<forall>r \<in> set (rws lost_custom_manifest). \<not> isna (cell r ''custom_output_path'') \<longrightarrow>
                 (\<exists>e. read_s3 storage (cell r ''custom_output_path'') = Inl e)"
    by (simp add: lost_custom_manifest_def cell_def read_s3_def storage_def)
  have c2: "''custom_output_path'' \<in> set (columns ?none)"
    by simp
  have absent: "\<forall>r \<in> set (rws ?none). isna (cell r ''custom_output_path'')"
    by (simp add: cell_def isna_def)
  have c3: "''standard_output_path'' \<in> set (columns partial_manifest)"
    by (simp add: partial_manifest_def)
  show ?thesis
    using read_never_raises_on_fetch_errors[OF c1, of storage] fails
      read_never_raises_on_fetch_errors[OF c2, of storage] absent
      read_never_raises_on_fetch_errors[OF c3, of storage] c1
    by blast
qed

section \<open>The final table: a union of the rows that were loaded\<close>

lemma modality_details_cells:
  assumes "modality_details mo std = Inr out"
    and "c \<notin> {''summary'', ''extracted_text_words'', ''extracted_text_lines'', ''extracted_transcript''}"
  shows "map (\<lambda>r. cell r c) (rws out) = map (\<lambda>r. cell r c) (rws std)"
  using assms
  by (auto simp: modality_details_def then_do_Inr cells_assign_series split: if_splits)

lemma custom_details_cells:
  assumes "custom_details fetch m = Inr cu" and "c \<noteq> ''blueprintName''"
  shows "map (\<lambda>r. cell r c) (rws cu) =
         map (\<lambda>r. cell r c) (loaded_rows fetch (dropna_items (path_cells m ''custom_output_path'')))"
proof (cases "''custom_output_path'' \<in> set (columns m)")
  case True
  obtain t where t: "read_custom_out_path_and_load fetch m ''custom_output_path'' = Inr t"
      "rws t = loaded_rows fetch (dropna_items (map (\<lambda>r. cell r ''custom_output_path'') (rws m)))"
    using read_total[OF True, of fetch] by blast
  show ?thesis
    using assms True t
    by (auto simp: custom_details_def then_do_Inr cells_assign_series path_cells_def)
next
  case False
  then show ?thesis
    using assms by (auto simp: custom_details_def path_cells_def empty_frame_def dropna_items_def loaded_rows_def)
qed

lemma main_results_cells:
  assumes "main_results fetch m = Inr final"
    and "c \<notin> {''blueprintName'', ''summary'', ''extracted_text_words'', ''extracted_text_lines'',
              ''extracted_transcript''}"
  shows "map (\<lambda>r. cell r c) (rws final) =
         map (\<lambda>r. cell r c) (loaded_rows fetch (dropna_items (path_cells m ''custom_output_path''))) @
         map (\<lambda>r. cell r c) (loaded_rows fetch (dropna_items (path_cells m ''standard_output_path'')))"
proof -
  from assms(1) obtain mo cu st std where
    cu: "custom_details fetch m = Inr cu"
    and st: "read_custom_out_path_and_load fetch m ''standard_output_path'' = Inr st"
    and std: "modality_details mo st = Inr std"
    and final: "final = concat_rows [cu, std]"
    by (auto simp: main_results_def then_do_Inr)
  have col: "''standard_output_path'' \<in> set (columns m)"
    using st read_missing_column[of "''standard_output_path''" m fetch] by auto
  have st_rows: "rws st = loaded_rows fetch (dropna_items (path_cells m ''standard_output_path''))"
    using read_total[OF col, of fetch] st col by (auto simp: path_cells_def)
  have "map (\<lambda>r. cell r c) (rws std) = map (\<lambda>r. cell r c) (rws st)"
    using modality_details_cells[OF std] assms(2) by simp
  moreover have "map (\<lambda>r. cell r c) (rws cu) =
      map (\<lambda>r. cell r c) (loaded_rows fetch (dropna_items (path_cells m ''custom_output_path'')))"
    using custom_details_cells[OF cu] assms(2) by simp
  ultimately show ?thesis
    by (simp add: final rws_concat_rows st_rows)
qed

lemma loaded_indexes:
  "map (\<lambda>r. cell r ''source_index'') (loaded_rows fetch items) =
     concat (map (\<lambda>(idx, s3_uri). case read_s3 fetch s3_uri of
                     Inl e \<Rightarrow> [] | Inr d \<Rightarrow> replicate (length (rws d)) (PInt (int idx))) items)"
proof (induction items)
  case Nil
  show ?case by (simp add: loaded_rows_def)
next
  case (Cons it items)
  obtain idx uri where it: "it = (idx, uri)" by (cases it)
  have "map (\<lambda>r. cell r ''source_index'') (map (tagged idx uri) rs) = replicate (length rs) (PInt (int idx))" for rs
    by (induction rs) (simp_all add: tagged_def cell_update)
  then show ?case
    using Cons.IH by (simp add: it loaded_rows_def split: sum.splits)
qed

text \<open>
  Claim C2, as the code has it. Whenever the pipeline completes, the rows of the final
  table are exactly the records of the detail documents that could be read, the custom
  ones first, then the standard ones, in manifest order, each carrying its location in
  \<^verbatim>\<open>source_file\<close>. A location whose read failed contributes no row at all: every row
  of the final table comes from a location that was read. So with one failed fetch the
  table has one row fewer than there are (segment, output-kind) pairs.
\<close>

theorem failed_fetch_contributes_no_row:
  assumes "main_results fetch m = Inr final"
  shows "map (\<lambda>r. cell r ''source_file'') (rws final) =
           fetched_sources fetch (path_cells m ''custom_output_path'') @
           fetched_sources fetch (path_cells m ''standard_output_path'')
       \<and> (\<forall>r \<in> set (rws final). \<exists>d. read_s3 fetch (cell r ''source_file'') = Inr d)"
proof -
  have src: "map (\<lambda>r. cell r ''source_file'') (rws final) =
           fetched_sources fetch (path_cells m ''custom_output_path'') @
           fetched_sources fetch (path_cells m ''standard_output_path'')"
    using main_results_cells[OF assms, of "''source_file''"]
    by (simp add: loaded_sources snd_dropna_items fetched_sources_def)
  have ok: "\<exists>d. read_s3 fetch v = Inr d" if "v \<in> set (fetched_sources fetch ps)" for v ps
    using that by (auto simp: fetched_sources_def split: sum.splits) metis
  have "\<exists>d. read_s3 fetch (cell r ''source_file'') = Inr d" if "r \<in> set (rws final)" for r
  proof -
    have "cell r ''source_file'' \<in> set (map (\<lambda>r. cell r ''source_file'') (rws final))"
      using that by simp
    then show ?thesis
      unfolding src using ok by auto
  qed
  then show ?thesis using src by blast
qed

text \<open>
  The theorem at the manifest of two image segments where the second standard output
  cannot be read: the pipeline completes with the one row of the first.
\<close>

theorem failed_fetch_contributes_no_row_witness:
  "main_results storage partial_manifest =
     Inr \<lparr>columns = [''image'', ''source_index'', ''source_file'', ''summary'',
                     ''extracted_text_words'', ''extracted_text_lines''],
          rws = [[(''image'', PDict [(''summary'', PStr ''x''),
                                     (''text_words'', PList [PStr ''a'', PStr ''b'']),
                                     (''text_lines'', PList [PStr ''ab''])]),
                  (''source_index'', PInt 0),
                  (''source_file'', PStr ''s3://b/img''),
                  (''summary'', PStr ''x''),
                  (''extracted_text_words'', PList [PStr ''a'', PStr ''b'']),
                  (''extracted_text_lines'', PList [PStr ''ab''])]]\<rparr>
   \<and> fetched_sources storage (path_cells partial_manifest ''custom_output_path'') @
       fetched_sources storage (path_cells partial_manifest ''standard_output_path'') =
       [PStr ''s3://b/img'']
   \<and> read_s3 storage (PStr ''s3://b/gone'') = Inl (ServiceError ''NoSuchKey'')"
proof -
  let ?final = "\<lparr>columns = [''image'', ''source_index'', ''source_file'', ''summary'',
                     ''extracted_text_words'', ''extracted_text_lines''],
          rws = [[(''image'', PDict [(''summary'', PStr ''x''),
                                     (''text_words'', PList [PStr ''a'', PStr ''b'']),
                                     (''text_lines'', PList [PStr ''ab''])]),
                  (''source_index'', PInt 0),
                  (''source_file'', PStr ''s3://b/img''),
                  (''summary'', PStr ''x''),
                  (''extracted_text_words'', PList [PStr ''a'', PStr ''b'']),
                  (''extracted_text_lines'', PList [PStr ''ab''])]]\<rparr>"
  have run: "main_results storage partial_manifest = Inr ?final"
    by (simp add: table_eval partial_manifest_def)
  have "map (\<lambda>r. cell r ''source_file'') (rws ?final) =
          fetched_sources storage (path_cells partial_manifest ''custom_output_path'') @
          fetched_sources storage (path_cells partial_manifest ''standard_output_path'')"
    using failed_fetch_contributes_no_row[OF run] by blast
  then have "fetched_sources storage (path_cells partial_manifest ''custom_output_path'') @
          fetched_sources storage (path_cells partial_manifest ''standard_output_path'') =
          [PStr ''s3://b/img'']"
    by (simp add: cell_def)
  moreover have "read_s3 storage (PStr ''s3://b/gone'') = Inl (ServiceError ''NoSuchKey'')"
    by (simp add: read_s3_def storage_def)
  ultimately show ?thesis using run by simp
qed

text \<open>
  Claim C2 as stated fails. With two standard detail documents of which one cannot be
  read, the final table has one row, not two: the segment whose fetch failed has no row
  with absent markers, it has no row. And when the single custom document of a manifest
  cannot be read while the standard one can, the pipeline does abort: the empty custom
  table has no \<^verbatim>\<open>matched_blueprint\<close> column and the lookup raises \<^verbatim>\<open>KeyError\<close>.
\<close>

theorem failed_fetch_drops_the_row:
  "main_results storage partial_manifest =
     Inr \<lparr>columns = [''image'', ''source_index'', ''source_file'', ''summary'',
                     ''extracted_text_words'', ''extracted_text_lines''],
          rws = [[(''image'', PDict [(''summary'', PStr ''x''),
                                     (''text_words'', PList [PStr ''a'', PStr ''b'']),
                                     (''text_lines'', PList [PStr ''ab''])]),
                  (''source_index'', PInt 0),
                  (''source_file'', PStr ''s3://b/img''),
                  (''summary'', PStr ''x''),
                  (''extracted_text_words'', PList [PStr ''a'', PStr ''b'']),
                  (''extracted_text_lines'', PList [PStr ''ab''])]]\<rparr>
   \<and> main_results storage lost_custom_manifest = Inl (KeyError ''matched_blueprint'')"
  by (simp add: table_eval partial_manifest_def lost_custom_manifest_def)

text \<open>
  Claim C7. Take a manifest of two segments where segment A has a custom and a standard
  output location and segment B a standard one only, every document holds one record
  and the pipeline completes. Then the final table has exactly three rows: one from A's
  custom output, then one from A's standard output and one from B's standard output.
  A's two rows are both there, each traceable to its location and to manifest row 0;
  B's row is traceable to manifest row 1.
\<close>

theorem union_keeps_both_kinds:
  assumes shape: "rws m = [seg_a, seg_b]" "''custom_output_path'' \<in> set (columns m)"
    and a: "cell seg_a ''custom_output_path'' = PStr custom_a"
           "cell seg_a ''standard_output_path'' = PStr standard_a"
    and b: "isna (cell seg_b ''custom_output_path'')"
           "cell seg_b ''standard_output_path'' = PStr standard_b"
    and docs: "fetch custom_a = Inr dc" "length (rws dc) = 1"
              "fetch standard_a = Inr da" "length (rws da) = 1"
              "fetch standard_b = Inr db" "length (rws db) = 1"
    and completes: "main_results fetch m = Inr final"
  shows "length (rws final) = 3
       \<and> map (\<lambda>r. cell r ''source_file'') (rws final) = [PStr custom_a, PStr standard_a, PStr standard_b]
       \<and> map (\<lambda>r. cell r ''source_index'') (rws final) = [PInt 0, PInt 0, PInt 1]"
proof -
  have std_col: "''standard_output_path'' \<in> set (columns m)"
  proof (rule ccontr)
    assume "''standard_output_path'' \<notin> set (columns m)"
    then have "read_custom_out_path_and_load fetch m ''standard_output_path'' = Inl (KeyError ''standard_output_path'')"
      by (rule read_missing_column)
    then show False using completes by (auto simp: main_results_def then_do_Inr)
  qed
  have cus: "dropna_items (path_cells m ''custom_output_path'') = [(0, PStr custom_a)]"
    using shape a b by (simp add: path_cells_def dropna_items_def isna_def)
  have std: "dropna_items (path_cells m ''standard_output_path'') = [(0, PStr standard_a), (1, PStr standard_b)]"
    using shape a b std_col by (simp add: path_cells_def dropna_items_def isna_def)
  have files: "map (\<lambda>r. cell r ''source_file'') (rws final) = [PStr custom_a, PStr standard_a, PStr standard_b]"
    using main_results_cells[OF completes, of "''source_file''"] docs
    by (simp add: cus std loaded_sources read_s3_def)
  have idxs: "map (\<lambda>r. cell r ''source_index'') (rws final) = [PInt 0, PInt 0, PInt 1]"
    using main_results_cells[OF completes, of "''source_index''"] docs
    by (simp add: cus std loaded_indexes read_s3_def)
  have "length (map (\<lambda>r. cell r ''source_file'') (rws final)) = 3"
    unfolding files by simp
  then have "length (rws final) = 3" by simp
  then show ?thesis using files idxs by simp
qed

text \<open>
  The theorem at the example manifest: the custom row carries the blueprint name and
  no summary, the two standard rows carry the summary and no blueprint name.
\<close>

theorem union_keeps_both_kinds_witness:
  "rws two_segment_manifest =
     [[(''semantic_modality'', PStr ''IMAGE''), (''custom_output_path'', PStr ''s3://b/cus''),
       (''standard_output_path'', PStr ''s3://b/img'')],
      [(''semantic_modality'', PStr ''IMAGE''), (''standard_output_path'', PStr ''s3://b/img2'')]]
   \<and> storage ''s3://b/cus'' = Inr custom_document \<and> length (rws custom_document) = 1
   \<and> storage ''s3://b/img'' = Inr image_document \<and> length (rws image_document) = 1
   \<and> storage ''s3://b/img2'' = Inr image_document
   \<and> (\<exists>final. main_results storage two_segment_manifest = Inr final
        \<and> length (rws final) = 3
        \<and> map (\<lambda>r. cell r ''source_file'') (rws final) =
            [PStr ''s3://b/cus'', PStr ''s3://b/img'', PStr ''s3://b/img2'']
        \<and> map (\<lambda>r. cell r ''source_index'') (rws final) = [PInt 0, PInt 0, PInt 1]
        \<and> map (\<lambda>r. cell r ''blueprintName'') (rws final) = [PStr ''Advertisement'', NaN, NaN]
        \<and> map (\<lambda>r. cell r ''summary'') (rws final) = [NaN, PStr ''x'', PStr ''x''])"
proof -
  let ?a = "[(''semantic_modality'', PStr ''IMAGE''), (''custom_output_path'', PStr ''s3://b/cus''),
       (''standard_output_path'', PStr ''s3://b/img'')]"
  let ?b = "[(''semantic_modality'', PStr ''IMAGE''), (''standard_output_path'', PStr ''s3://b/img2'')]"
  have shape: "rws two_segment_manifest = [?a, ?b]"
    and col: "''custom_output_path'' \<in> set (columns two_segment_manifest)"
    by (simp_all add: two_segment_manifest_def)
  have a: "cell ?a ''custom_output_path'' = PStr ''s3://b/cus''"
          "cell ?a ''standard_output_path'' = PStr ''s3://b/img''"
    and b: "isna (cell ?b ''custom_output_path'')"
           "cell ?b ''standard_output_path'' = PStr ''s3://b/img2''"
    by (simp_all add: cell_def isna_def)
  have docs: "storage ''s3://b/cus'' = Inr custom_document" "length (rws custom_document) = 1"
      "storage ''s3://b/img'' = Inr image_document" "length (rws image_document) = 1"
      "storage ''s3://b/img2'' = Inr image_document"
    by (simp_all add: storage_def custom_document_def image_document_def)
  obtain final where run: "main_results storage two_segment_manifest = Inr final"
    and bp: "map (\<lambda>r. cell r ''blueprintName'') (rws final) = [PStr ''Advertisement'', NaN, NaN]"
    and sm: "map (\<lambda>r. cell r ''summary'') (rws final) = [NaN, PStr ''x'', PStr ''x'']"
    by (simp add: table_eval two_segment_manifest_def)
  have "length (rws final) = 3
       \<and> map (\<lambda>r. cell r ''source_file'') (rws final) =
           [PStr ''s3://b/cus'', PStr ''s3://b/img'', PStr ''s3://b/img2'']
       \<and> map (\<lambda>r. cell r ''source_index'') (rws final) = [PInt 0, PInt 0, PInt 1]"
    by (rule union_keeps_both_kinds[OF shape col a b docs(1,2,3,4,5,4) run])
  then show ?thesis
    using shape docs run bp sm by simp
qed

section \<open>The modality branch\<close>

lemma get_column_retag:
  assumes "c \<noteq> ''semantic_modality''"
  shows "get_column (m\<lparr>rws := (rws m)[i := AList.update ''semantic_modality'' tag (rws m ! i)]\<rparr>) c =
         get_column m c"
proof -
  have "map (\<lambda>r. cell r c) ((rws m)[i := AList.update ''semantic_modality'' tag (rws m ! i)]) =
        map (\<lambda>r. cell r c) (rws m)"
  proof (cases "i < length (rws m)")
    case True
    then show ?thesis
      using assms by (intro nth_equalityI) (auto simp: nth_list_update cell_update)
  next
    case False
    then show ?thesis by (simp add: list_update_beyond)
  qed
  then show ?thesis by (simp add: get_column_def)
qed

lemma read_retag:
  assumes "c \<noteq> ''semantic_modality''"
  shows "read_custom_out_path_and_load fetch
           (m\<lparr>rws := (rws m)[i := AList.update ''semantic_modality'' tag (rws m ! i)]\<rparr>) c =
         read_custom_out_path_and_load fetch m c"
  by (simp add: read_custom_out_path_and_load_def get_column_retag[OF assms])

lemma first_tag_retag:
  assumes "0 < i"
  shows "then_do (get_column (m\<lparr>rws := (rws m)[i := AList.update ''semantic_modality'' tag (rws m ! i)]\<rparr>)
                    ''semantic_modality'') at_label0 =
         then_do (get_column m ''semantic_modality'') at_label0"
proof (cases "rws m")
  case Nil
  then show ?thesis by (simp add: get_column_def)
next
  case (Cons r rs)
  obtain j where "i = Suc j" using assms by (cases i) auto
  then show ?thesis using Cons by (simp add: get_column_def at_label0_def)
qed

text \<open>
  Claim C1, as the code has it. The modality is read once, from the manifest row with
  index label 0 (\<^verbatim>\<open>exploded_job_metadata["semantic_modality"][0]\<close>), and the one branch it
  selects is applied to the whole standard table. So the modality tag of any other row
  has no influence: replacing it by any value leaves the outcome of the pipeline the
  same, and whenever the pipeline completes, the standard records are those the branch
  of the first row's tag produces.
\<close>

theorem modality_taken_from_first_row:
  assumes "0 < i"
  shows "main_results fetch
           (m\<lparr>rws := (rws m)[i := AList.update ''semantic_modality'' tag (rws m ! i)]\<rparr>) =
         main_results fetch m
       \<and> (main_results fetch m = Inr final \<longrightarrow>
            (\<exists>custom loaded standard.
               custom_details fetch m = Inr custom
             \<and> read_custom_out_path_and_load fetch m ''standard_output_path'' = Inr loaded
             \<and> modality_details (cell (hd (rws m)) ''semantic_modality'') loaded = Inr standard
             \<and> final = concat_rows [custom, standard]))"
proof -
  have branch: "\<exists>custom loaded standard.
               custom_details fetch m = Inr custom
             \<and> read_custom_out_path_and_load fetch m ''standard_output_path'' = Inr loaded
             \<and> modality_details (cell (hd (rws m)) ''semantic_modality'') loaded = Inr standard
             \<and> final = concat_rows [custom, standard]"
    if run: "main_results fetch m = Inr final"
  proof -
    from run obtain mods mo where mods: "get_column m ''semantic_modality'' = Inr mods"
      and mo: "at_label0 mods = Inr mo"
      and rest: "then_do (custom_details fetch m) (\<lambda>custom_extracted_details.
        then_do (read_custom_out_path_and_load fetch m ''standard_output_path'')
          (\<lambda>standard_extracted_details.
        then_do (modality_details mo standard_extracted_details) (\<lambda>standard.
          Inr (concat_rows [custom_extracted_details, standard])))) = Inr final"
      by (auto simp: main_results_def then_do_Inr)
    have "mods = map (\<lambda>r. cell r ''semantic_modality'') (rws m)"
      using mods by (auto simp: get_column_def split: if_splits)
    then have "mo = cell (hd (rws m)) ''semantic_modality''"
      using mo by (cases "rws m") (auto simp: at_label0_def)
    then show ?thesis
      using rest by (auto simp: then_do_Inr)
  qed
  let ?m' = "m\<lparr>rws := (rws m)[i := AList.update ''semantic_modality'' tag (rws m ! i)]\<rparr>"
  have cu: "custom_details fetch ?m' = custom_details fetch m"
    using read_retag[of "''custom_output_path''" fetch m i tag]
    by (simp add: custom_details_def)
  have st: "read_custom_out_path_and_load fetch ?m' ''standard_output_path'' =
            read_custom_out_path_and_load fetch m ''standard_output_path''"
    by (rule read_retag) simp
  have "main_results fetch m' =
        then_do (then_do (get_column m' ''semantic_modality'') at_label0) (\<lambda>modality_extracted.
        then_do (custom_details fetch m') (\<lambda>custom_extracted_details.
        then_do (read_custom_out_path_and_load fetch m' ''standard_output_path'')
          (\<lambda>standard_extracted_details.
        then_do (modality_details modality_extracted standard_extracted_details) (\<lambda>standard.
          Inr (concat_rows [custom_extracted_details, standard])))))" for m'
    by (cases "get_column m' ''semantic_modality''") (simp_all add: main_results_def)
  then have "main_results fetch ?m' = main_results fetch m"
    using first_tag_retag[OF assms, of m tag] cu st by simp
  then show ?thesis
    using branch by blast
qed

text \<open>
  The theorem at the manifest tagged IMAGE, VIDEO: retagging the second row as IMAGE
  changes nothing, and the branch applied is the one of IMAGE.
\<close>

theorem modality_taken_from_first_row_witness:
  "0 < (1::nat)
   \<and> main_results storage
        (mixed_manifest\<lparr>rws := (rws mixed_manifest)
           [1 := AList.update ''semantic_modality'' (PStr ''IMAGE'') (rws mixed_manifest ! 1)]\<rparr>) =
       main_results storage mixed_manifest
   \<and> cell (hd (rws mixed_manifest)) ''semantic_modality'' = PStr ''IMAGE''
   \<and> (\<exists>final custom loaded standard.
         main_results storage mixed_manifest = Inr final
       \<and> custom_details storage mixed_manifest = Inr custom
       \<and> read_custom_out_path_and_load storage mixed_manifest ''standard_output_path'' = Inr loaded
       \<and> modality_details (cell (hd (rws mixed_manifest)) ''semantic_modality'') loaded = Inr standard
       \<and> final = concat_rows [custom, standard])"
proof -
  have pos: "0 < (1::nat)" by simp
  obtain final where run: "main_results storage mixed_manifest = Inr final"
    by (simp add: table_eval mixed_manifest_def)
  have tag: "cell (hd (rws mixed_manifest)) ''semantic_modality'' = PStr ''IMAGE''"
    by (simp add: mixed_manifest_def cell_def)
  show ?thesis
    using modality_taken_from_first_row[OF pos, of storage mixed_manifest "PStr ''IMAGE''" final]
      run tag by blast
qed

text \<open>
  Claim C1 as stated fails. In a manifest whose rows are tagged IMAGE and VIDEO, the
  record of the VIDEO row is not enriched according to its own tag: the image branch
  runs for it too. Its document holds the video summary \<^verbatim>\<open>v\<close> and the transcript text
  \<^verbatim>\<open>hello\<close>, but its \<^verbatim>\<open>summary\<close> is the absent marker and the final table has no
  \<^verbatim>\<open>extracted_transcript\<close> column at all.
\<close>

theorem other_rows_get_the_first_rows_branch:
  "main_results storage mixed_manifest =
     Inr \<lparr>columns = [''image'', ''source_index'', ''source_file'', ''video'', ''summary'',
                     ''extracted_text_words'', ''extracted_text_lines''],
          rws = [[(''image'', PDict [(''summary'', PStr ''x''),
                                     (''text_words'', PList [PStr ''a'', PStr ''b'']),
                                     (''text_lines'', PList [PStr ''ab''])]),
                  (''source_index'', PInt 0),
                  (''source_file'', PStr ''s3://b/img''),
                  (''summary'', PStr ''x''),
                  (''extracted_text_words'', PList [PStr ''a'', PStr ''b'']),
                  (''extracted_text_lines'', PList [PStr ''ab''])],
                 [(''video'', PDict [(''summary'', PStr ''v''),
                                     (''transcript'', PDict
                                        [(''representation'', PDict [(''text'', PStr ''hello'')])])]),
                  (''source_index'', PInt 1),
                  (''source_file'', PStr ''s3://b/vid''),
                  (''summary'', NaN),
                  (''extracted_text_words'', NaN),
                  (''extracted_text_lines'', NaN)]]\<rparr>"
  by (simp add: table_eval mixed_manifest_def)

lemma map_of_filter_keep:
  "map_of d k = Some v \<Longrightarrow> P (k, v) \<Longrightarrow> map_of (filter P d) k = Some v"
  by (induction d) (auto split: if_splits)

lemma cell_top_level:
  assumes "map_of d k = Some v" and "\<not> is_dict v"
  shows "cell (simple_json_normalize (PDict d)) k = v"
proof -
  have "map_of (filter (\<lambda>kv. \<not> is_dict (snd kv)) d) k = Some v"
    using assms by (intro map_of_filter_keep) simp_all
  then show ?thesis
    by (simp add: normalise_json_ordered_def cell_def)
qed

lemma json_normalize_rows:
  "json_normalize vs = Inr nd \<Longrightarrow> rws nd = map simple_json_normalize vs"
  by (auto simp: json_normalize_def Let_def split: if_splits)

lemma get_column_cells:
  "get_column df c = Inr col \<Longrightarrow> col = map (\<lambda>r. cell r c) (rws df)"
  by (auto simp: get_column_def split: if_splits)

lemma normalized_cell:
  assumes "get_column std c = Inr col" and "json_normalize col = Inr nd"
    and "get_column nd k = Inr vals" and "i < length (rws std)"
  shows "i < length vals \<and> vals ! i = cell (simple_json_normalize (cell (rws std ! i) c)) k"
  using assms get_column_cells[OF assms(1)] get_column_cells[OF assms(3)]
    json_normalize_rows[OF assms(2)]
  by simp

text \<open>
  Flattened labels. Below a non-empty key, every label \<^verbatim>\<open>json_normalize\<close> produces is
  the key itself or the key, a dot and more. So, among field names that contain no
  dot, the label of a nested field is produced by that field alone.
\<close>

lemma dot_split_unique:
  "CHR ''.'' \<notin> set a \<Longrightarrow> CHR ''.'' \<notin> set b \<Longrightarrow> a @ ''.'' @ r = b @ ''.'' @ r' \<Longrightarrow> a = b"
proof (induction a arbitrary: b)
  case Nil
  then show ?case by (cases b) auto
next
  case (Cons x a)
  then show ?case by (cases b) auto
qed

lemma labels_prefixed:
  "key \<noteq> [] \<Longrightarrow> l \<in> fst ` set (normalise_json key v) \<Longrightarrow>
     l = key \<or> (\<exists>r. l = key @ ''.'' @ r)"
  "key \<noteq> [] \<Longrightarrow> l \<in> fst ` set (normalise_items key d) \<Longrightarrow> (\<exists>r. l = key @ ''.'' @ r)"
proof (induction key v and key d rule: normalise_json_normalise_items.induct)
  case (4 key k v kvs)
  from 4(4) consider (here) "l \<in> fst ` set (normalise_json (key @ ''.'' @ k) v)"
    | (later) "l \<in> fst ` set (normalise_items key kvs)"
    using 4(3) by auto
  then show ?case
  proof cases
    case here
    then have "l = key @ ''.'' @ k \<or> (\<exists>r. l = (key @ ''.'' @ k) @ ''.'' @ r)"
      using 4(1) 4(3) by simp
    then show ?thesis by auto
  next
    case later
    then show ?thesis using 4(2) 4(3) by simp
  qed
qed auto


lemma nondict_flat: "\<not> is_dict t \<Longrightarrow> normalise_json key t = [(key, t)]"
  by (cases t) simp_all

lemma map_of_append_first:
  "map_of xs l = Some t \<Longrightarrow> map_of (xs @ ys) l = Some t"
  by (simp add: map_add_Some_iff)

lemma map_of_append_skip:
  "l \<notin> fst ` set xs \<Longrightarrow> map_of (xs @ ys) l = map_of ys l"
  by (simp add: map_add_def map_of_eq_None_iff[symmetric] split: option.splits)

lemma lookup_leaf:
  assumes "map_of d f = Some t" and "\<not> is_dict t" and "key \<noteq> []" and "CHR ''.'' \<notin> set f"
  shows "map_of (normalise_items key d) (key @ ''.'' @ f) = Some t"
  using assms(1)
proof (induction d)
  case Nil
  then show ?case by simp
next
  case (Cons kv d)
  obtain k v where kv: "kv = (k, v)" by (cases kv)
  show ?case
  proof (cases "k = f")
    case True
    then have "v = t" using Cons.prems kv by simp
    then show ?thesis
      using True kv assms(2,3) by (simp add: nondict_flat)
  next
    case False
    have "key @ ''.'' @ f \<notin> fst ` set (normalise_json (key @ ''.'' @ k) v)"
    proof
      assume "key @ ''.'' @ f \<in> fst ` set (normalise_json (key @ ''.'' @ k) v)"
      then have "key @ ''.'' @ f = key @ ''.'' @ k \<or>
                 (\<exists>r. key @ ''.'' @ f = (key @ ''.'' @ k) @ ''.'' @ r)"
        by (intro labels_prefixed(1)) simp_all
      then show False
        using False assms(4) by auto
    qed
    then have "map_of (normalise_items key (kv # d)) (key @ ''.'' @ f) =
               map_of (normalise_items key d) (key @ ''.'' @ f)"
      using assms(3) by (simp add: kv map_of_append_skip del: map_of_append)
    then show ?thesis
      using Cons.IH Cons.prems False kv by simp
  qed
qed

lemma lookup_nested:
  assumes "map_of d f = Some (PDict d')"
    and "\<forall>k \<in> fst ` set d. CHR ''.'' \<notin> set k"
    and "key \<noteq> []"
    and "map_of (normalise_items (key @ ''.'' @ f) d') (key @ ''.'' @ f @ ''.'' @ rest) = Some t"
  shows "map_of (normalise_items key d) (key @ ''.'' @ f @ ''.'' @ rest) = Some t"
  using assms(1,2)
proof (induction d)
  case Nil
  then show ?case by simp
next
  case (Cons kv d)
  obtain k v where kv: "kv = (k, v)" by (cases kv)
  have fdot: "CHR ''.'' \<notin> set f"
    using Cons.prems by (metis domI dom_map_of_conv_image_fst)
  have kdot: "CHR ''.'' \<notin> set k"
    using Cons.prems(2) kv by simp
  show ?case
  proof (cases "k = f")
    case True
    then have "v = PDict d'" using Cons.prems kv by simp
    then show ?thesis
      using True kv assms(3,4) by (simp add: map_of_append_first del: map_of_append)
  next
    case False
    have "key @ ''.'' @ f @ ''.'' @ rest \<notin> fst ` set (normalise_json (key @ ''.'' @ k) v)"
    proof
      assume "key @ ''.'' @ f @ ''.'' @ rest \<in> fst ` set (normalise_json (key @ ''.'' @ k) v)"
      then have "key @ ''.'' @ f @ ''.'' @ rest = key @ ''.'' @ k \<or>
                 (\<exists>r. key @ ''.'' @ f @ ''.'' @ rest = (key @ ''.'' @ k) @ ''.'' @ r)"
        by (intro labels_prefixed(1)) simp_all
      then consider "k = f @ ''.'' @ rest" | r where "f @ ''.'' @ rest = k @ ''.'' @ r"
        by auto
      then show False
      proof cases
        case 1
        then show False using kdot by simp
      next
        case 2
        then show False using dot_split_unique[OF fdot kdot 2] False by simp
      qed
    qed
    then have "map_of (normalise_items key (kv # d)) (key @ ''.'' @ f @ ''.'' @ rest) =
               map_of (normalise_items key d) (key @ ''.'' @ f @ ''.'' @ rest)"
      using assms(3) by (simp add: kv map_of_append_skip del: map_of_append)
    then show ?thesis
      using Cons.IH Cons.prems False kv by simp
  qed
qed

lemma lookup_top:
  assumes "map_of d f = Some (PDict d')"
    and "\<forall>k \<in> fst ` set d. k \<noteq> [] \<and> CHR ''.'' \<notin> set k"
    and "map_of (normalise_items f d') (f @ ''.'' @ rest) = Some t"
  shows "map_of (normalise_items [] d) (f @ ''.'' @ rest) = Some t"
  using assms(1,2)
proof (induction d)
  case Nil
  then show ?case by simp
next
  case (Cons kv d)
  obtain k v where kv: "kv = (k, v)" by (cases kv)
  have fdot: "CHR ''.'' \<notin> set f"
    using Cons.prems by (metis domI dom_map_of_conv_image_fst)
  have kdot: "CHR ''.'' \<notin> set k" and knil: "k \<noteq> []"
    using Cons.prems(2) kv by simp_all
  show ?case
  proof (cases "k = f")
    case True
    then have "v = PDict d'" using Cons.prems kv by simp
    then show ?thesis
      using True kv assms(3) by (simp add: map_of_append_first del: map_of_append)
  next
    case False
    have "f @ ''.'' @ rest \<notin> fst ` set (normalise_json k v)"
    proof
      assume "f @ ''.'' @ rest \<in> fst ` set (normalise_json k v)"
      then consider "f @ ''.'' @ rest = k" | r where "f @ ''.'' @ rest = k @ ''.'' @ r"
        using labels_prefixed(1)[OF knil] by blast
      then show False
      proof cases
        case 1
        then show False using kdot by auto
      next
        case 2
        then show False using dot_split_unique[OF fdot kdot 2] False by simp
      qed
    qed
    then have "map_of (normalise_items [] (kv # d)) (f @ ''.'' @ rest) =
               map_of (normalise_items [] d) (f @ ''.'' @ rest)"
      by (simp add: kv map_of_append_skip del: map_of_append)
    then show ?thesis
      using Cons.IH Cons.prems False kv by simp
  qed
qed

lemma cell_nested_field:
  assumes v: "map_of v a = Some (PDict tr)"
      "\<forall>k \<in> fst ` set v. k \<noteq> [] \<and> CHR ''.'' \<notin> set k"
    and tr: "map_of tr b = Some (PDict rp)" "\<forall>k \<in> fst ` set tr. CHR ''.'' \<notin> set k"
    and rp: "map_of rp c = Some t" "\<not> is_dict t" "CHR ''.'' \<notin> set c"
  shows "cell (simple_json_normalize (PDict v)) (a @ ''.'' @ b @ ''.'' @ c) = t"
proof -
  have a: "a \<noteq> []"
    using v by (metis domI dom_map_of_conv_image_fst)
  have 1: "map_of (normalise_items (a @ ''.'' @ b) rp) ((a @ ''.'' @ b) @ ''.'' @ c) = Some t"
    using rp by (intro lookup_leaf) simp_all
  have 2: "map_of (normalise_items a tr) (a @ ''.'' @ b @ ''.'' @ c) = Some t"
    using 1 by (intro lookup_nested[OF tr a]) simp
  let ?nested = "filter (\<lambda>kv. is_dict (snd kv)) v"
  have "map_of ?nested a = Some (PDict tr)"
    using v(1) by (intro map_of_filter_keep) simp_all
  moreover have "\<forall>k \<in> fst ` set ?nested. k \<noteq> [] \<and> CHR ''.'' \<notin> set k"
    using v(2) by auto
  ultimately have 3: "map_of (normalise_items [] ?nested) (a @ ''.'' @ b @ ''.'' @ c) = Some t"
    using 2 by (intro lookup_top)
  have "a @ ''.'' @ b @ ''.'' @ c \<notin> fst ` set v"
  proof
    assume "a @ ''.'' @ b @ ''.'' @ c \<in> fst ` set v"
    then have "CHR ''.'' \<notin> set (a @ ''.'' @ b @ ''.'' @ c)"
      using v(2) by blast
    then show False by simp
  qed
  then have "a @ ''.'' @ b @ ''.'' @ c \<notin> fst ` set (filter (\<lambda>kv. \<not> is_dict (snd kv)) v)"
    by auto
  then have "map_of (normalise_json_ordered v) (a @ ''.'' @ b @ ''.'' @ c) = Some t"
    unfolding normalise_json_ordered_def using 3 by (simp add: map_of_append_skip del: map_of_append)
  then show ?thesis by (simp add: cell_def)
qed

text \<open>What the two branches put into a row, in terms of the row's flattened record.\<close>

lemma image_row:
  assumes "modality_details (PStr ''IMAGE'') std = Inr out" and "i < length (rws std)"
  shows "cell (rws out ! i) ''summary'' =
           cell (simple_json_normalize (cell (rws std ! i) ''image'')) ''summary''"
    and "cell (rws out ! i) ''extracted_text_words'' =
           cell (simple_json_normalize (cell (rws std ! i) ''image'')) ''text_words''"
    and "cell (rws out ! i) ''extracted_text_lines'' =
           cell (simple_json_normalize (cell (rws std ! i) ''image'')) ''text_lines''"
proof -
  from assms(1) obtain col nd c1 c2 c3 where
    col: "get_column std ''image'' = Inr col" and nd: "json_normalize col = Inr nd"
    and c1: "get_column nd ''summary'' = Inr c1"
    and c2: "get_column nd ''text_words'' = Inr c2"
    and c3: "get_column nd ''text_lines'' = Inr c3"
    and out: "out = assign_series (assign_series (assign_series std ''summary'' c1)
                      ''extracted_text_words'' c2) ''extracted_text_lines'' c3"
    by (auto simp: modality_details_def then_do_Inr)
  note v1 = normalized_cell[OF col nd c1 assms(2)]
    and v2 = normalized_cell[OF col nd c2 assms(2)]
    and v3 = normalized_cell[OF col nd c3 assms(2)]
  have row: "rws out ! i = AList.update ''extracted_text_lines'' (c3 ! i)
               (AList.update ''extracted_text_words'' (c2 ! i)
                 (AList.update ''summary'' (c1 ! i) (rws std ! i)))"
    using assms(2) v1 v2 v3 by (simp add: out nth_assign_series length_assign_series)
  show "cell (rws out ! i) ''summary'' =
           cell (simple_json_normalize (cell (rws std ! i) ''image'')) ''summary''"
    and "cell (rws out ! i) ''extracted_text_words'' =
           cell (simple_json_normalize (cell (rws std ! i) ''image'')) ''text_words''"
    and "cell (rws out ! i) ''extracted_text_lines'' =
           cell (simple_json_normalize (cell (rws std ! i) ''image'')) ''text_lines''"
    using v1 v2 v3 by (simp_all add: row cell_update)
qed

lemma video_row:
  assumes "modality_details (PStr ''VIDEO'') std = Inr out" and "i < length (rws std)"
  shows "cell (rws out ! i) ''summary'' =
           cell (simple_json_normalize (cell (rws std ! i) ''video'')) ''summary''"
    and "cell (rws out ! i) ''extracted_transcript'' =
           cell (simple_json_normalize (cell (rws std ! i) ''video''))
             ''transcript.representation.text''"
proof -
  from assms(1) obtain col nd c1 c2 where
    col: "get_column std ''video'' = Inr col" and nd: "json_normalize col = Inr nd"
    and c1: "get_column nd ''summary'' = Inr c1"
    and c2: "get_column nd ''transcript.representation.text'' = Inr c2"
    and out: "out = assign_series (assign_series std ''summary'' c1) ''extracted_transcript'' c2"
    by (auto simp: modality_details_def then_do_Inr)
  note v1 = normalized_cell[OF col nd c1 assms(2)]
    and v2 = normalized_cell[OF col nd c2 assms(2)]
  have row: "rws out ! i = AList.update ''extracted_transcript'' (c2 ! i)
                 (AList.update ''summary'' (c1 ! i) (rws std ! i))"
    using assms(2) v1 v2 by (simp add: out nth_assign_series length_assign_series)
  show "cell (rws out ! i) ''summary'' =
           cell (simple_json_normalize (cell (rws std ! i) ''video'')) ''summary''"
    and "cell (rws out ! i) ''extracted_transcript'' =
           cell (simple_json_normalize (cell (rws std ! i) ''video''))
             ''transcript.representation.text''"
    using v1 v2 by (simp_all add: row cell_update)
qed

lemma transcript_text_label:
  assumes "map_of vid ''transcript'' = Some (PDict tr)"
    and "map_of tr ''representation'' = Some (PDict rp)"
    and "map_of rp ''text'' = Some t" and "\<not> is_dict t"
    and "\<forall>k \<in> fst ` set vid. k \<noteq> [] \<and> CHR ''.'' \<notin> set k"
    and "\<forall>k \<in> fst ` set tr. CHR ''.'' \<notin> set k"
  shows "cell (simple_json_normalize (PDict vid)) ''transcript.representation.text'' = t"
  using cell_nested_field[OF assms(1,5,2,6,3,4), of ] by simp

text \<open>
  Claim C8. Take any row of the standard table. When the image branch runs and the
  row's nested \<^verbatim>\<open>image\<close> structure has the fields \<^verbatim>\<open>summary\<close>, \<^verbatim>\<open>text_words\<close> and
  \<^verbatim>\<open>text_lines\<close>, the row of the result has exactly these values in the columns
  \<^verbatim>\<open>summary\<close>, \<^verbatim>\<open>extracted_text_words\<close> and \<^verbatim>\<open>extracted_text_lines\<close> (the spec's
  \<open>extractedTextWords\<close> and \<open>extractedTextLines\<close>). When the video branch runs on a
  row with a nested \<^verbatim>\<open>video\<close> structure, whatever other fields it has and in whatever
  order: a \<^verbatim>\<open>summary\<close> field of it is the row's \<^verbatim>\<open>summary\<close>, and the doubly nested
  field \<^verbatim>\<open>text\<close> of \<^verbatim>\<open>representation\<close> of \<^verbatim>\<open>transcript\<close> is the row's
  \<^verbatim>\<open>extracted_transcript\<close> (the spec's \<open>extractedTranscript\<close>), the field names of the
  structure and of its transcript being plain names without a dot. With no condition
  on the row at all, each branch copies the values its flattened record has under the
  labels \<^verbatim>\<open>summary\<close>, \<^verbatim>\<open>text_words\<close>, \<^verbatim>\<open>text_lines\<close> and
  \<^verbatim>\<open>transcript.representation.text\<close>.
\<close>

theorem modality_extraction_columns:
  assumes "i < length (rws std)"
  shows "(modality_details (PStr ''IMAGE'') std = Inr out \<longrightarrow>
            cell (rws std ! i) ''image'' = PDict img \<longrightarrow>
            map_of img ''summary'' = Some s \<longrightarrow> \<not> is_dict s \<longrightarrow>
            map_of img ''text_words'' = Some ws \<longrightarrow> \<not> is_dict ws \<longrightarrow>
            map_of img ''text_lines'' = Some ls \<longrightarrow> \<not> is_dict ls \<longrightarrow>
              cell (rws out ! i) ''summary'' = s
            \<and> cell (rws out ! i) ''extracted_text_words'' = ws
            \<and> cell (rws out ! i) ''extracted_text_lines'' = ls)
       \<and> (modality_details (PStr ''VIDEO'') std = Inr out' \<longrightarrow>
            cell (rws std ! i) ''video'' = PDict vid \<longrightarrow>
              (map_of vid ''summary'' = Some s' \<longrightarrow> \<not> is_dict s' \<longrightarrow>
                 cell (rws out' ! i) ''summary'' = s')
            \<and> (map_of vid ''transcript'' = Some (PDict tr) \<longrightarrow>
               map_of tr ''representation'' = Some (PDict rp) \<longrightarrow>
               map_of rp ''text'' = Some t \<longrightarrow> \<not> is_dict t \<longrightarrow>
               (\<forall>k \<in> fst ` set vid. k \<noteq> [] \<and> CHR ''.'' \<notin> set k) \<longrightarrow>
               (\<forall>k \<in> fst ` set tr. CHR ''.'' \<notin> set k) \<longrightarrow>
                 cell (rws out' ! i) ''extracted_transcript'' = t))
       \<and> (modality_details (PStr ''VIDEO'') std = Inr out' \<longrightarrow>
              cell (rws out' ! i) ''summary'' =
                cell (simple_json_normalize (cell (rws std ! i) ''video'')) ''summary''
            \<and> cell (rws out' ! i) ''extracted_transcript'' =
                cell (simple_json_normalize (cell (rws std ! i) ''video''))
                  ''transcript.representation.text'')
       \<and> (modality_details (PStr ''IMAGE'') std = Inr out \<longrightarrow>
              cell (rws out ! i) ''summary'' =
                cell (simple_json_normalize (cell (rws std ! i) ''image'')) ''summary''
            \<and> cell (rws out ! i) ''extracted_text_words'' =
                cell (simple_json_normalize (cell (rws std ! i) ''image'')) ''text_words''
            \<and> cell (rws out ! i) ''extracted_text_lines'' =
                cell (simple_json_normalize (cell (rws std ! i) ''image'')) ''text_lines'')"
proof (intro conjI impI)
  assume run: "modality_details (PStr ''IMAGE'') std = Inr out"
    and img: "cell (rws std ! i) ''image'' = PDict img"
    and s: "map_of img ''summary'' = Some s" "\<not> is_dict s"
    and ws: "map_of img ''text_words'' = Some ws" "\<not> is_dict ws"
    and ls: "map_of img ''text_lines'' = Some ls" "\<not> is_dict ls"
  show "cell (rws out ! i) ''summary'' = s"
    using image_row(1)[OF run assms] cell_top_level[OF s] img by simp
  show "cell (rws out ! i) ''extracted_text_words'' = ws"
    using image_row(2)[OF run assms] cell_top_level[OF ws] img by simp
  show "cell (rws out ! i) ''extracted_text_lines'' = ls"
    using image_row(3)[OF run assms] cell_top_level[OF ls] img by simp
next
  assume run: "modality_details (PStr ''VIDEO'') std = Inr out'"
    and vid: "cell (rws std ! i) ''video'' = PDict vid"
    and s: "map_of vid ''summary'' = Some s'" "\<not> is_dict s'"
  show "cell (rws out' ! i) ''summary'' = s'"
    using video_row(1)[OF run assms] cell_top_level[OF s] vid by simp
next
  assume run: "modality_details (PStr ''VIDEO'') std = Inr out'"
    and vid: "cell (rws std ! i) ''video'' = PDict vid"
    and nested: "map_of vid ''transcript'' = Some (PDict tr)"
      "map_of tr ''representation'' = Some (PDict rp)"
      "map_of rp ''text'' = Some t" "\<not> is_dict t"
      "\<forall>k \<in> fst ` set vid. k \<noteq> [] \<and> CHR ''.'' \<notin> set k"
      "\<forall>k \<in> fst ` set tr. CHR ''.'' \<notin> set k"
  show "cell (rws out' ! i) ''extracted_transcript'' = t"
    using video_row(2)[OF run assms] transcript_text_label[OF nested] vid by simp
next
  assume run: "modality_details (PStr ''VIDEO'') std = Inr out'"
  show "cell (rws out' ! i) ''summary'' =
          cell (simple_json_normalize (cell (rws std ! i) ''video'')) ''summary''"
    by (rule video_row(1)[OF run assms])
  show "cell (rws out' ! i) ''extracted_transcript'' =
          cell (simple_json_normalize (cell (rws std ! i) ''video''))
            ''transcript.representation.text''"
    by (rule video_row(2)[OF run assms])
next
  assume run: "modality_details (PStr ''IMAGE'') std = Inr out"
  show "cell (rws out ! i) ''summary'' =
          cell (simple_json_normalize (cell (rws std ! i) ''image'')) ''summary''"
    by (rule image_row(1)[OF run assms])
  show "cell (rws out ! i) ''extracted_text_words'' =
          cell (simple_json_normalize (cell (rws std ! i) ''image'')) ''text_words''"
    by (rule image_row(2)[OF run assms])
  show "cell (rws out ! i) ''extracted_text_lines'' =
          cell (simple_json_normalize (cell (rws std ! i) ''image'')) ''text_lines''"
    by (rule image_row(3)[OF run assms])
qed

text \<open>
  The theorem at the claim's own values: summary \<^verbatim>\<open>x\<close>, words \<^verbatim>\<open>a\<close>, \<^verbatim>\<open>b\<close> and line
  \<^verbatim>\<open>ab\<close> for the image; transcript text \<^verbatim>\<open>hello\<close> for the video, once as the only
  nested field and once among other fields.
\<close>

theorem modality_extraction_columns_witness:
  "0 < length (rws image_document)
   \<and> cell (rws image_document ! 0) ''image'' =
       PDict [(''summary'', PStr ''x''), (''text_words'', PList [PStr ''a'', PStr ''b'']),
              (''text_lines'', PList [PStr ''ab''])]
   \<and> (\<exists>out. modality_details (PStr ''IMAGE'') image_document = Inr out
        \<and> cell (rws out ! 0) ''summary'' = PStr ''x''
        \<and> cell (rws out ! 0) ''extracted_text_words'' = PList [PStr ''a'', PStr ''b'']
        \<and> cell (rws out ! 0) ''extracted_text_lines'' = PList [PStr ''ab''])
   \<and> 0 < length (rws video_document)
   \<and> cell (rws video_document ! 0) ''video'' =
       PDict [(''summary'', PStr ''v''),
              (''transcript'', PDict [(''representation'', PDict [(''text'', PStr ''hello'')])])]
   \<and> (\<exists>out. modality_details (PStr ''VIDEO'') video_document = Inr out
        \<and> cell (rws out ! 0) ''summary'' = PStr ''v''
        \<and> cell (rws out ! 0) ''extracted_transcript'' = PStr ''hello'')
   \<and> 0 < length (rws long_video_document)
   \<and> cell (rws long_video_document ! 0) ''video'' =
       PDict [(''transcript'', PDict
                 [(''language'', PStr ''en''),
                  (''representation'', PDict [(''text'', PStr ''hello'')])]),
              (''statistics'', PDict [(''shot_count'', PInt 3)]),
              (''summary'', PStr ''v'')]
   \<and> (\<exists>out. modality_details (PStr ''VIDEO'') long_video_document = Inr out
        \<and> cell (rws out ! 0) ''summary'' = PStr ''v''
        \<and> cell (rws out ! 0) ''extracted_transcript'' = PStr ''hello'')"
proof -
  let ?img = "[(''summary'', PStr ''x''), (''text_words'', PList [PStr ''a'', PStr ''b'']),
               (''text_lines'', PList [PStr ''ab''])]"
  have i0: "0 < length (rws image_document)"
    and icell: "cell (rws image_document ! 0) ''image'' = PDict ?img"
    by (simp_all add: image_document_def cell_def)
  obtain out where irun: "modality_details (PStr ''IMAGE'') image_document = Inr out"
    by (simp add: table_eval)
  have image: "cell (rws out ! 0) ''summary'' = PStr ''x''
        \<and> cell (rws out ! 0) ''extracted_text_words'' = PList [PStr ''a'', PStr ''b'']
        \<and> cell (rws out ! 0) ''extracted_text_lines'' = PList [PStr ''ab'']"
    using modality_extraction_columns[OF i0, where out = out and img = ?img
        and s = "PStr ''x''" and ws = "PList [PStr ''a'', PStr ''b'']"
        and ls = "PList [PStr ''ab'']"] irun icell
    by simp
  let ?rp = "[(''text'', PStr ''hello'')]"
  let ?tr = "[(''representation'', PDict ?rp)]"
  let ?vid = "[(''summary'', PStr ''v''), (''transcript'', PDict ?tr)]"
  have v0: "0 < length (rws video_document)"
    and vcell: "cell (rws video_document ! 0) ''video'' = PDict ?vid"
    by (simp_all add: video_document_def cell_def)
  obtain out' where vrun: "modality_details (PStr ''VIDEO'') video_document = Inr out'"
    by (simp add: table_eval)
  have video: "cell (rws out' ! 0) ''summary'' = PStr ''v''
        \<and> cell (rws out' ! 0) ''extracted_transcript'' = PStr ''hello''"
    using modality_extraction_columns[OF v0, where out' = out' and vid = ?vid
        and s' = "PStr ''v''" and tr = ?tr and rp = ?rp and t = "PStr ''hello''"] vrun vcell
    by simp
  let ?ltr = "[(''language'', PStr ''en''), (''representation'', PDict ?rp)]"
  let ?lvid = "[(''transcript'', PDict ?ltr),
               (''statistics'', PDict [(''shot_count'', PInt 3)]),
               (''summary'', PStr ''v'')]"
  have l0: "0 < length (rws long_video_document)"
    and lcell: "cell (rws long_video_document ! 0) ''video'' = PDict ?lvid"
    by (simp_all add: long_video_document_def cell_def)
  obtain out'' where lrun: "modality_details (PStr ''VIDEO'') long_video_document = Inr out''"
    by (simp add: table_eval long_video_document_def)
  have long: "cell (rws out'' ! 0) ''summary'' = PStr ''v''
        \<and> cell (rws out'' ! 0) ''extracted_transcript'' = PStr ''hello''"
    using modality_extraction_columns[OF l0, where out' = out'' and vid = ?lvid
        and s' = "PStr ''v''" and tr = ?ltr and rp = ?rp and t = "PStr ''hello''"] lrun lcell
    by simp
  show ?thesis
    using i0 icell irun image v0 vcell vrun video l0 lcell lrun long by blast
qed

section \<open>Manifest expansion\<close>

lemma concat_columns_normalized:
  assumes "get_column a c = Inr col" and "json_normalize col = Inr b"
  shows "rws (concat_columns a b) = map (\<lambda>r. r @ simple_json_normalize (cell r c)) (rws a)"
proof -
  have b: "rws b = map (\<lambda>r. simple_json_normalize (cell r c)) (rws a)"
    using json_normalize_rows[OF assms(2)] get_column_cells[OF assms(1)] by simp
  show ?thesis
    by (rule nth_equalityI) (simp_all add: concat_columns_def row_at_def b)
qed

lemma columns_concat_columns: "columns (concat_columns a b) = columns a @ columns b"
  by (simp add: concat_columns_def)

lemma explode_rows:
  "explode df c = Inr ex \<Longrightarrow>
   rws ex = concat (map (\<lambda>r. map (\<lambda>v. AList.update c v r) (explode_cell (cell r c))) (rws df))
   \<and> columns ex = columns df"
  by (auto simp: explode_def split: if_splits)

lemma map_concat_map: "map f (concat (map g xs)) = concat (map (\<lambda>x. map f (g x)) xs)"
  by (induction xs) simp_all

lemma length_expanded_rows:
  "1 \<le> segment_count r \<Longrightarrow> length (expanded_rows r) = segment_count r"
proof -
  assume n: "1 \<le> segment_count r"
  then obtain segs where segs: "segment_entries r = PList segs"
    by (cases "segment_entries r") (simp_all add: segment_count_def)
  then have "segs \<noteq> []" using n by (auto simp: segment_count_def)
  then obtain x xs where "segs = x # xs" by (cases segs) auto
  then show ?thesis using segs by (simp add: expanded_rows_def segment_count_def)
qed

lemma retrieve_rows:
  assumes "read_json s3_uri = Inr df"
    and "retrieve_inference_results read_json s3_uri = Inr out"
  shows "rws out = concat (map expanded_rows (rws df))"
proof -
  from assms obtain om nom ex sm nsm where
    om: "get_column df ''output_metadata'' = Inr om"
    and nom: "json_normalize om = Inr nom"
    and ex: "explode (concat_columns df nom) ''segment_metadata'' = Inr ex"
    and sm: "get_column ex ''segment_metadata'' = Inr sm"
    and nsm: "json_normalize sm = Inr nsm"
    and out: "out = concat_columns ex nsm"
    by (auto simp: retrieve_inference_results_def then_do_Inr Let_def)
  have flat: "rws (concat_columns df nom) = map flattened_row (rws df)"
    using concat_columns_normalized[OF om nom] by (simp add: flattened_row_def)
  have exr: "rws ex = concat (map (\<lambda>r. map (\<lambda>v. AList.update ''segment_metadata'' v (flattened_row r))
                                       (explode_cell (segment_entries r))) (rws df))"
    using explode_rows[OF ex] by (simp add: flat segment_entries_def comp_def)
  have "rws out = map (\<lambda>e. e @ simple_json_normalize (cell e ''segment_metadata'')) (rws ex)"
    using concat_columns_normalized[OF sm nsm] by (simp add: out)
  also have "\<dots> = concat (map (\<lambda>r. expanded_rows r) (rws df))"
    unfolding expanded_rows_def by (simp add: exr map_concat_map cell_update comp_def)
  finally show ?thesis by simp
qed

text \<open>
  Claim C6, as the code has it. Whenever the manifest loads, its rows are the
  expansions of the rows read, in order. A row with a list of \<open>N \<ge> 1\<close>
  segment-metadata entries becomes exactly \<open>N\<close> rows, one per entry: the entry stands
  in the \<^verbatim>\<open>segment_metadata\<close> column, its flattened metadata stands beside the parent
  row's columns, and every other column the parent row has keeps the parent's value.
  A row with an empty list does not vanish: it becomes one row whose segment metadata
  is the absent marker. When every row has at least one entry, the number of rows after
  expansion is the sum of the numbers of entries.
\<close>

theorem manifest_expansion:
  assumes "read_json s3_uri = Inr df"
    and "retrieve_inference_results read_json s3_uri = Inr out"
  shows "rws out = concat (map expanded_rows (rws df))
       \<and> (\<forall>r segs. segment_entries r = PList segs \<longrightarrow> segs \<noteq> [] \<longrightarrow>
            expanded_rows r =
              map (\<lambda>seg. AList.update ''segment_metadata'' seg (flattened_row r) @
                          simple_json_normalize seg) segs)
       \<and> (\<forall>r. segment_entries r = PList [] \<longrightarrow>
            expanded_rows r = [AList.update ''segment_metadata'' NaN (flattened_row r)])
       \<and> (\<forall>r. \<forall>row \<in> set (expanded_rows r). \<forall>c \<in> fst ` set r.
            c \<noteq> ''segment_metadata'' \<longrightarrow> cell row c = cell r c)
       \<and> ((\<forall>r \<in> set (rws df). 1 \<le> segment_count r) \<longrightarrow>
            length (rws out) = sum_list (map segment_count (rws df)))"
proof (intro conjI allI impI ballI)
  show "rws out = concat (map expanded_rows (rws df))"
    by (rule retrieve_rows[OF assms])
next
  fix r segs
  assume "segment_entries r = PList segs" and "segs \<noteq> []"
  then show "expanded_rows r =
      map (\<lambda>seg. AList.update ''segment_metadata'' seg (flattened_row r) @
                  simple_json_normalize seg) segs"
    by (cases segs) (simp_all add: expanded_rows_def)
next
  fix r
  assume "segment_entries r = PList []"
  then show "expanded_rows r = [AList.update ''segment_metadata'' NaN (flattened_row r)]"
    by (simp add: expanded_rows_def)
next
  fix r row c
  assume row: "row \<in> set (expanded_rows r)" and c: "c \<in> fst ` set r" "c \<noteq> ''segment_metadata''"
  from row obtain v where v: "row = AList.update ''segment_metadata'' v (flattened_row r) @ simple_json_normalize v"
    by (auto simp: expanded_rows_def)
  have "map_of r c \<noteq> None"
    using c(1) by (simp add: map_of_eq_None_iff)
  then obtain x where x: "map_of r c = Some x" by auto
  have "map_of (AList.update ''segment_metadata'' v (flattened_row r)) c = Some x"
    using c(2) x by (simp add: update_conv' flattened_row_def)
  then show "cell row c = cell r c"
    using x by (simp add: v cell_def)
next
  assume all: "\<forall>r \<in> set (rws df). 1 \<le> segment_count r"
  have "length (rws out) = sum_list (map (\<lambda>r. length (expanded_rows r)) (rws df))"
    by (simp add: retrieve_rows[OF assms] length_concat comp_def)
  also have "\<dots> = sum_list (map segment_count (rws df))"
    using all by (intro arg_cong[where f = sum_list] map_cong) (simp_all add: length_expanded_rows)
  finally show "length (rws out) = sum_list (map segment_count (rws df))" .
qed

lemmas manifest_eval =
  retrieve_inference_results_def get_column_def json_normalize_def normalise_json_ordered_def
  concat_columns_def row_at_def explode_def cell_def add_column_def segment_def

text \<open>
  The theorem at the manifest of two rows with three segments and one segment: four
  rows after expansion, each with its own segment's path and its parent's asset and job.
\<close>

theorem manifest_expansion_witness:
  "map segment_count (rws raw_manifest) = [3, 1]
   \<and> (\<exists>out. retrieve_inference_results (\<lambda>u. Inr raw_manifest) ''s3://b/job_metadata.json'' = Inr out
        \<and> length (rws out) = 4
        \<and> rws out = concat (map expanded_rows (rws raw_manifest))
        \<and> map (\<lambda>r. cell r ''standard_output_path'') (rws out) =
            [PStr ''a'', PStr ''b'', PStr ''c'', PStr ''d'']
        \<and> map (\<lambda>r. cell r ''segment_metadata'') (rws out) =
            [segment ''a'', segment ''b'', segment ''c'', segment ''d'']
        \<and> map (\<lambda>r. cell r ''asset_id'') (rws out) = [PInt 0, PInt 0, PInt 0, PInt 1]
        \<and> map (\<lambda>r. cell r ''job_id'') (rws out) = [PStr ''j'', PStr ''j'', PStr ''j'', PStr ''j''])"
proof -
  have counts: "map segment_count (rws raw_manifest) = [3, 1]"
    by (simp add: raw_manifest_def segment_count_def segment_entries_def flattened_row_def
        normalise_json_ordered_def cell_def)
  then have all: "\<forall>r \<in> set (rws raw_manifest). 1 \<le> segment_count r"
    by (simp add: raw_manifest_def)
  have rd: "(\<lambda>u. Inr raw_manifest) ''s3://b/job_metadata.json'' = (Inr raw_manifest :: error + dataframe)"
    by simp
  obtain out where run:
      "retrieve_inference_results (\<lambda>u. Inr raw_manifest) ''s3://b/job_metadata.json'' = Inr out"
    and cells: "map (\<lambda>r. cell r ''standard_output_path'') (rws out) =
            [PStr ''a'', PStr ''b'', PStr ''c'', PStr ''d'']"
       "map (\<lambda>r. cell r ''segment_metadata'') (rws out) =
            [segment ''a'', segment ''b'', segment ''c'', segment ''d'']"
       "map (\<lambda>r. cell r ''asset_id'') (rws out) = [PInt 0, PInt 0, PInt 0, PInt 1]"
       "map (\<lambda>r. cell r ''job_id'') (rws out) = [PStr ''j'', PStr ''j'', PStr ''j'', PStr ''j'']"
    by (simp add: manifest_eval raw_manifest_def)
  have "rws out = concat (map expanded_rows (rws raw_manifest))"
    and "length (rws out) = sum_list (map segment_count (rws raw_manifest))"
    using manifest_expansion[OF rd run] all by blast+
  then show ?thesis
    using counts run cells by simp
qed

text \<open>
  Claim C6 as stated fails at \<open>N = 0\<close>: a manifest row with no segment-metadata entry
  becomes one row after expansion, not none.
\<close>

theorem empty_segment_list_still_gives_a_row:
  "retrieve_inference_results (\<lambda>u. Inr raw_manifest_no_segment) ''s3://b/job_metadata.json'' =
     Inr \<lparr>columns = [''job_id'', ''semantic_modality'', ''output_metadata'', ''asset_id'',
                     ''segment_metadata''],
          rws = [[(''job_id'', PStr ''j''), (''semantic_modality'', PStr ''IMAGE''),
                  (''output_metadata'', PDict [(''asset_id'', PInt 0),
                                               (''segment_metadata'', PList [])]),
                  (''asset_id'', PInt 0), (''segment_metadata'', NaN)]]\<rparr>"
  by (simp add: manifest_eval raw_manifest_no_segment_def)

end
